theory Spec2Isabelle
  imports Complex_Main "HOL-Library.AList" "HOL-Library.Multiset" "HOL-Library.Char_ord"
    "HOL-Library.List_Lexorder" "HOL-Library.Product_Lexorder"
begin

section \<open>Values and documents\<close>

text \<open>
  The values that the handlers of \<^verbatim>\<open>server.py\<close> move between request bodies, pydantic
  models and the document store: \<^verbatim>\<open>None\<close>, booleans, Python's unbounded integers, floats,
  strings and \<^verbatim>\<open>datetime\<close> values.  Floats are carried as rationals: the handlers store
  and return them and never round them (infinities and not-a-number, which the store
  keeps as they are, are left out).  A \<^verbatim>\<open>datetime\<close> is a number of microseconds, the
  resolution of Python's clock.  A string is a sequence of bytes of well-formed text.
  Nested objects and arrays do not occur in any declared model and are not modelled.

  A document, a \<^verbatim>\<open>dict\<close> and the keyword arguments of a model constructor are association
  lists: keys in insertion order, looked up with \<open>map_of\<close>.  The \<^verbatim>\<open>_id\<close> key that the store
  adds to every inserted document is left out: no handler reads it and the models ignore
  unknown keys.
\<close>

datatype pyval = VNone | VBool bool | VInt int | VFloat rat | VStr string | VTime nat

type_synonym doc = "(string \<times> pyval) list"

datatype error =
    HTTPException nat string
  | KeyError string
  | TypeError
  | ValidationError string
  | OverflowError


section \<open>The document store\<close>

text \<open>
  A collection is the list of its documents in insertion order.  The operations are
  those of the driver that the handlers call, with the semantics of the store:
  an equality filter compares numbers by value, and \<^verbatim>\<open>null\<close> in a filter also matches a
  missing field; \<^verbatim>\<open>find_one\<close>, \<^verbatim>\<open>update_one\<close> and \<^verbatim>\<open>delete_one\<close> act on the first match;
  \<^verbatim>\<open>$set\<close> overwrites a field in place or appends it, and accepts an empty operand;
  an upsert without a match inserts the filter's fields with the \<^verbatim>\<open>$set\<close> applied.
  The fields that one \<^verbatim>\<open>$set\<close> adds to a document are kept in the order of the operand; no
  handler depends on the order of the fields of a stored document, since every model is
  built by field name.  The store's limit on the size of one document is not modelled.

  The driver encodes every document it sends.  An integer must fit in 8 bytes: for one
  that does not it raises \<^verbatim>\<open>OverflowError\<close> and nothing is sent.  A \<^verbatim>\<open>datetime\<close> is stored in
  milliseconds: the microseconds below are cut off, and the value read back is the
  truncated one.
\<close>

fun storable :: "pyval \<Rightarrow> bool" where
  "storable (VInt n) = (- (2 ^ 63) \<le> n \<and> n < 2 ^ 63)"
| "storable v = True"

definition millis :: "nat \<Rightarrow> nat" where
  "millis t = 1000 * (t div 1000)"

fun to_bson :: "pyval \<Rightarrow> pyval" where
  "to_bson (VTime t) = VTime (millis t)"
| "to_bson v = v"

definition encodable :: "doc \<Rightarrow> bool" where
  "encodable d = list_all (\<lambda>kv. storable (snd kv)) d"

definition to_bson_doc :: "doc \<Rightarrow> doc" where
  "to_bson_doc d = map (\<lambda>kv. (fst kv, to_bson (snd kv))) d"

definition encode :: "doc \<Rightarrow> error + doc" where
  "encode d = (if encodable d then Inr (to_bson_doc d) else Inl OverflowError)"

fun bson_eq :: "pyval \<Rightarrow> pyval \<Rightarrow> bool" where
  "bson_eq (VInt a) (VFloat b) = (of_int a = b)"
| "bson_eq (VFloat a) (VInt b) = (a = of_int b)"
| "bson_eq v w = (v = w)"

definition field_matches :: "doc \<Rightarrow> string \<times> pyval \<Rightarrow> bool" where
  "field_matches d kv =
     (case map_of d (fst kv) of
        None \<Rightarrow> snd kv = VNone
      | Some w \<Rightarrow> bson_eq w (snd kv))"

definition matches :: "doc \<Rightarrow> doc \<Rightarrow> bool" where
  "matches flt d = list_all (field_matches d) flt"

definition find_one :: "doc \<Rightarrow> doc list \<Rightarrow> doc option" where
  "find_one flt coll = List.find (matches flt) coll"

definition insert_one :: "doc \<Rightarrow> doc list \<Rightarrow> error + doc list" where
  "insert_one d coll =
     (case encode d of
        Inl err \<Rightarrow> Inl err
      | Inr stored \<Rightarrow> Inr (coll @ [stored]))"

fun apply_set :: "doc \<Rightarrow> doc \<Rightarrow> doc" where
  "apply_set [] d = d"
| "apply_set (kv # sets) d = apply_set sets (AList.update (fst kv) (snd kv) d)"

fun modify_first :: "('a \<Rightarrow> bool) \<Rightarrow> ('a \<Rightarrow> 'a) \<Rightarrow> 'a list \<Rightarrow> 'a list" where
  "modify_first p f [] = []"
| "modify_first p f (d # ds) = (if p d then f d # ds else d # modify_first p f ds)"

fun remove_first :: "('a \<Rightarrow> bool) \<Rightarrow> 'a list \<Rightarrow> 'a list" where
  "remove_first p [] = []"
| "remove_first p (d # ds) = (if p d then ds else d # remove_first p ds)"

text \<open>What the store does with the encoded filter and \<^verbatim>\<open>$set\<close> operand of an \<^verbatim>\<open>update_one\<close>.\<close>

definition update_docs :: "doc \<Rightarrow> doc \<Rightarrow> bool \<Rightarrow> doc list \<Rightarrow> doc list" where
  "update_docs flt sets upsert coll =
     (if list_ex (matches flt) coll then modify_first (matches flt) (apply_set sets) coll
      else if upsert then coll @ [apply_set sets flt]
      else coll)"

definition update_one :: "doc \<Rightarrow> doc \<Rightarrow> bool \<Rightarrow> doc list \<Rightarrow> error + doc list" where
  "update_one flt sets upsert coll =
     (case encode flt of
        Inl err \<Rightarrow> Inl err
      | Inr stored_flt \<Rightarrow>
          (case encode sets of
             Inl err \<Rightarrow> Inl err
           | Inr stored_sets \<Rightarrow> Inr (update_docs stored_flt stored_sets upsert coll)))"

text \<open>
  \<^verbatim>\<open>find_one\<close> and \<^verbatim>\<open>delete_one\<close> are only called with a filter on a string, which always
  encodes to itself.  \<^verbatim>\<open>delete_one\<close> returns the collection and \<^verbatim>\<open>deleted_count\<close>.
\<close>

definition delete_one :: "doc \<Rightarrow> doc list \<Rightarrow> doc list \<times> nat" where
  "delete_one flt coll =
     (if list_ex (matches flt) coll then (remove_first (matches flt) coll, 1)
      else (coll, 0))"

text \<open>
  \<^verbatim>\<open>find().sort("order", 1).to_list(100)\<close>: the store compares values of different types by
  type first (null and missing, then numbers, strings, booleans, dates), numbers by
  value, strings bytewise.
\<close>

fun bson_key :: "pyval option \<Rightarrow> nat \<times> rat \<times> string" where
  "bson_key None = (0, 0, [])"
| "bson_key (Some VNone) = (0, 0, [])"
| "bson_key (Some (VInt n)) = (1, of_int n, [])"
| "bson_key (Some (VFloat r)) = (1, r, [])"
| "bson_key (Some (VStr s)) = (2, 0, s)"
| "bson_key (Some (VBool b)) = (3, of_bool b, [])"
| "bson_key (Some (VTime t)) = (4, of_nat t, [])"

definition find_sorted :: "string \<Rightarrow> nat \<Rightarrow> doc list \<Rightarrow> doc list" where
  "find_sorted k n coll = take n (sort_key (\<lambda>d. bson_key (map_of d k)) coll)"

record db =
  app_config :: "doc list"
  slide_images :: "doc list"
  slide_settings :: "doc list"
  current_number :: "doc list"
  bluetooth_remote :: "doc list"
  voice_settings :: "doc list"

definition empty_db :: db where
  "empty_db = \<lparr>app_config = [], slide_images = [], slide_settings = [],
     current_number = [], bluetooth_remote = [], voice_settings = []\<rparr>"


section \<open>The models\<close>

text \<open>
  A pydantic model class is the list of its declared fields: name, type, whether the
  type is \<^verbatim>\<open>Optional\<close>, and the default (none, a value, or a factory).  The constructor
  \<^verbatim>\<open>Model(**kwargs)\<close> takes each declared field from the keyword arguments, or its default
  when the key is absent, and ignores every other key.  A value of the declared type is
  taken as it is, and so is \<^verbatim>\<open>None\<close> for an \<^verbatim>\<open>Optional\<close> field.  A required field that is absent
  and \<^verbatim>\<open>None\<close> for a field that is not \<^verbatim>\<open>Optional\<close> raise a validation error.  Any other
  value pydantic tries to convert to the declared type (the string \<^verbatim>\<open>"5"\<close> to the integer
  5, for instance); which values it converts depends on its version, so the conversion
  is the parameter \<open>convert\<close> of the environment, and a value it does not convert raises
  a validation error.  The result is \<^verbatim>\<open>model.dict()\<close>.

  What the clock and the identifier generator return is given by the environment of the
  request: \<open>utcnow\<close> for the handler's own call of \<^verbatim>\<open>datetime.utcnow()\<close>, and for every field
  name what its default factory returns when a constructor calls it.
\<close>

datatype ftype = TStr | TInt | TBool | TFloat | TDatetime

datatype dflt = Required | Default pyval | Factory_utcnow | Factory_uuid4

datatype field = Field (fname: string) (ftype: ftype) (optional: bool) (fdefault: dflt)

record env =
  utcnow :: nat
  factory_utcnow :: "string \<Rightarrow> nat"
  factory_uuid4 :: "string \<Rightarrow> string"
  convert :: "ftype \<Rightarrow> pyval \<Rightarrow> pyval option"

fun has_type :: "ftype \<Rightarrow> pyval \<Rightarrow> bool" where
  "has_type TStr (VStr s) = True"
| "has_type TInt (VInt n) = True"
| "has_type TBool (VBool b) = True"
| "has_type TFloat (VFloat r) = True"
| "has_type TDatetime (VTime t) = True"
| "has_type ty v = False"

definition accepts :: "field \<Rightarrow> pyval \<Rightarrow> bool" where
  "accepts f v = (has_type (ftype f) v \<or> (optional f \<and> v = VNone))"

definition convert_field :: "env \<Rightarrow> field \<Rightarrow> pyval \<Rightarrow> error + pyval" where
  "convert_field e f v =
     (case convert e (ftype f) v of
        None \<Rightarrow> Inl (ValidationError (fname f))
      | Some w \<Rightarrow> if has_type (ftype f) w then Inr w else Inl (ValidationError (fname f)))"

definition validate_field :: "env \<Rightarrow> field \<Rightarrow> doc \<Rightarrow> error + pyval" where
  "validate_field e f kwargs =
     (case map_of kwargs (fname f) of
        Some v \<Rightarrow>
          if accepts f v then Inr v
          else if v = VNone then Inl (ValidationError (fname f))
          else convert_field e f v
      | None \<Rightarrow>
          (case fdefault f of
             Required \<Rightarrow> Inl (ValidationError (fname f))
           | Default v \<Rightarrow> Inr v
           | Factory_utcnow \<Rightarrow> Inr (VTime (factory_utcnow e (fname f)))
           | Factory_uuid4 \<Rightarrow> Inr (VStr (factory_uuid4 e (fname f)))))"

fun validate_model :: "env \<Rightarrow> field list \<Rightarrow> doc \<Rightarrow> error + doc" where
  "validate_model e [] kwargs = Inr []"
| "validate_model e (f # fs) kwargs =
     (case validate_field e f kwargs of
        Inl err \<Rightarrow> Inl err
      | Inr v \<Rightarrow>
          (case validate_model e fs kwargs of
             Inl err \<Rightarrow> Inl err
           | Inr r \<Rightarrow> Inr ((fname f, v) # r)))"

text \<open>\<^verbatim>\<open>Model(**found)\<close> on the result of \<^verbatim>\<open>find_one\<close>: unpacking \<^verbatim>\<open>None\<close> is a type error.\<close>

definition init_model :: "env \<Rightarrow> field list \<Rightarrow> doc option \<Rightarrow> error + doc" where
  "init_model e model found =
     (case found of None \<Rightarrow> Inl TypeError | Some d \<Rightarrow> validate_model e model d)"

definition AppConfig :: "field list" where
  "AppConfig =
    [Field ''id'' TStr False (Default (VStr ''main_config'')),
     Field ''restaurant_name'' TStr False (Default (VStr ''Number ONE'')),
     Field ''city'' TStr False (Default (VStr ''ROMA'')),
     Field ''logo_base64'' TStr True (Default VNone),
     Field ''theme_primary_color'' TStr False (Default (VStr ''#FF0000'')),
     Field ''theme_secondary_color'' TStr False (Default (VStr ''#2C3E50'')),
     Field ''theme_text_color'' TStr False (Default (VStr ''#FFFFFF'')),
     Field ''rss_feed_url'' TStr False
       (Default (VStr ''https://news.google.com/rss?hl=it&gl=IT&ceid=IT:it'')),
     Field ''weather_api_key'' TStr True (Default VNone),
     Field ''created_at'' TDatetime False Factory_utcnow,
     Field ''updated_at'' TDatetime False Factory_utcnow]"

definition AppConfigUpdate :: "field list" where
  "AppConfigUpdate =
    [Field ''restaurant_name'' TStr True (Default VNone),
     Field ''city'' TStr True (Default VNone),
     Field ''logo_base64'' TStr True (Default VNone),
     Field ''theme_primary_color'' TStr True (Default VNone),
     Field ''theme_secondary_color'' TStr True (Default VNone),
     Field ''theme_text_color'' TStr True (Default VNone),
     Field ''rss_feed_url'' TStr True (Default VNone),
     Field ''weather_api_key'' TStr True (Default VNone)]"

definition SlideImage :: "field list" where
  "SlideImage =
    [Field ''id'' TStr False Factory_uuid4,
     Field ''image_base64'' TStr False Required,
     Field ''order'' TInt False (Default (VInt 0)),
     Field ''created_at'' TDatetime False Factory_utcnow]"


definition SlideSettings :: "field list" where
  "SlideSettings =
    [Field ''id'' TStr False (Default (VStr ''slide_settings'')),
     Field ''interval_seconds'' TInt False (Default (VInt 10)),
     Field ''transition_effect'' TStr False (Default (VStr ''fade'')),
     Field ''auto_play'' TBool False (Default (VBool True))]"

definition SlideSettingsUpdate :: "field list" where
  "SlideSettingsUpdate =
    [Field ''interval_seconds'' TInt True (Default VNone),
     Field ''transition_effect'' TStr True (Default VNone),
     Field ''auto_play'' TBool True (Default VNone)]"

definition CurrentNumber :: "field list" where
  "CurrentNumber =
    [Field ''id'' TStr False (Default (VStr ''current_number'')),
     Field ''number'' TInt False (Default (VInt 1)),
     Field ''updated_at'' TDatetime False Factory_utcnow]"

definition NumberUpdate :: "field list" where
  "NumberUpdate = [Field ''number'' TInt False Required]"

definition BluetoothRemote :: "field list" where
  "BluetoothRemote =
    [Field ''id'' TStr False (Default (VStr ''bluetooth_remote'')),
     Field ''device_name'' TStr True (Default VNone),
     Field ''device_id'' TStr True (Default VNone),
     Field ''button_a_action'' TStr False (Default (VStr ''increment'')),
     Field ''button_b_action'' TStr False (Default (VStr ''decrement'')),
     Field ''button_c_action'' TStr False (Default (VStr ''reset'')),
     Field ''button_d_action'' TStr False (Default (VStr ''none'')),
     Field ''is_paired'' TBool False (Default (VBool False))]"

definition BluetoothRemoteUpdate :: "field list" where
  "BluetoothRemoteUpdate =
    [Field ''device_name'' TStr True (Default VNone),
     Field ''device_id'' TStr True (Default VNone),
     Field ''button_a_action'' TStr True (Default VNone),
     Field ''button_b_action'' TStr True (Default VNone),
     Field ''button_c_action'' TStr True (Default VNone),
     Field ''button_d_action'' TStr True (Default VNone),
     Field ''is_paired'' TBool True (Default VNone)]"

definition VoiceSettings :: "field list" where
  "VoiceSettings =
    [Field ''id'' TStr False (Default (VStr ''voice_settings'')),
     Field ''enabled'' TBool False (Default (VBool True)),
     Field ''voice_type'' TStr False (Default (VStr ''female'')),
     Field ''pitch'' TFloat False (Default (VFloat 1)),
     Field ''rate'' TFloat False (Default (VFloat 1)),
     Field ''phrase_template'' TStr False (Default (VStr ''Numero {number}'')),
     Field ''language'' TStr False (Default (VStr ''it-IT''))]"

definition VoiceSettingsUpdate :: "field list" where
  "VoiceSettingsUpdate =
    [Field ''enabled'' TBool True (Default VNone),
     Field ''voice_type'' TStr True (Default VNone),
     Field ''pitch'' TFloat True (Default VNone),
     Field ''rate'' TFloat True (Default VNone),
     Field ''phrase_template'' TStr True (Default VNone),
     Field ''language'' TStr True (Default VNone)]"


text \<open>
  \<open>is_model\<close>: the \<^verbatim>\<open>dict()\<close> of an instance of the model, which is what a handler gets
  for a request body that pydantic has validated.  \<open>conforms\<close>: a stored document from
  which the model can be built (a declared field is absent or holds a value of its
  type; a required one is present).
\<close>

definition is_model :: "field list \<Rightarrow> doc \<Rightarrow> bool" where
  "is_model model d = (map fst d = map fname model \<and> list_all2 accepts model (map snd d))"

definition field_conforms :: "doc \<Rightarrow> field \<Rightarrow> bool" where
  "field_conforms d f =
     (case map_of d (fname f) of
        None \<Rightarrow> fdefault f \<noteq> Required
      | Some v \<Rightarrow> accepts f v)"

definition conforms :: "field list \<Rightarrow> doc \<Rightarrow> bool" where
  "conforms model d = list_all (field_conforms d) model"


section \<open>Singleton handlers\<close>

text \<open>
  The five \<^verbatim>\<open>GET\<close> handlers of the singletons are one piece of code up to the collection,
  the fixed id and the model: \<^verbatim>\<open>find_one\<close>; when nothing is found, build the default
  instance, insert its \<^verbatim>\<open>dict()\<close> and return the instance; otherwise build the model from
  the document found.  (A document found is never falsy: the store returns it with
  \<^verbatim>\<open>_id\<close>.)  The instance returned after the insert is the one in memory, with the clock's
  microseconds; the document inserted is its encoding.
  Each handler returns its result, or the error it raises, and the store it leaves.
\<close>

definition get_singleton ::
    "env \<Rightarrow> field list \<Rightarrow> string \<Rightarrow> doc list \<Rightarrow> (error + doc) \<times> doc list" where
  "get_singleton e model key coll =
     (case find_one [(''id'', VStr key)] coll of
        None \<Rightarrow>
          (case validate_model e model [] of
             Inl err \<Rightarrow> (Inl err, coll)
           | Inr default_obj \<Rightarrow>
               (case insert_one default_obj coll of
                  Inl err \<Rightarrow> (Inl err, coll)
                | Inr coll' \<Rightarrow> (Inr default_obj, coll')))
      | Some found \<Rightarrow> (validate_model e model found, coll))"

text \<open>\<^verbatim>\<open>{k: v for k, v in update.dict().items() if v is not None}\<close>\<close>

definition not_none :: "doc \<Rightarrow> doc" where
  "not_none d = filter (\<lambda>kv. snd kv \<noteq> VNone) d"

text \<open>
  The \<^verbatim>\<open>PUT\<close> handlers: \<^verbatim>\<open>update_one\<close> with \<^verbatim>\<open>$set\<close> of the update data and \<^verbatim>\<open>upsert=True\<close>,
  then \<^verbatim>\<open>find_one\<close> and the model built from what it returns.
\<close>

definition put_singleton ::
    "env \<Rightarrow> field list \<Rightarrow> string \<Rightarrow> doc \<Rightarrow> doc list \<Rightarrow> (error + doc) \<times> doc list" where
  "put_singleton e model key update_data coll =
     (case update_one [(''id'', VStr key)] update_data True coll of
        Inl err \<Rightarrow> (Inl err, coll)
      | Inr coll' \<Rightarrow>
          (let found = find_one [(''id'', VStr key)] coll'
           in (init_model e model found, coll')))"

definition get_config :: "env \<Rightarrow> db \<Rightarrow> (error + doc) \<times> db" where
  "get_config e s =
     (case get_singleton e AppConfig ''main_config'' (app_config s) of
        (r, coll) \<Rightarrow> (r, s\<lparr>app_config := coll\<rparr>))"

definition update_config :: "doc \<Rightarrow> env \<Rightarrow> db \<Rightarrow> (error + doc) \<times> db" where
  "update_config config_update e s =
     (let update_data =
            AList.update ''updated_at'' (VTime (utcnow e)) (not_none config_update)
      in case put_singleton e AppConfig ''main_config'' update_data (app_config s) of
           (r, coll) \<Rightarrow> (r, s\<lparr>app_config := coll\<rparr>))"

definition get_slide_settings :: "env \<Rightarrow> db \<Rightarrow> (error + doc) \<times> db" where
  "get_slide_settings e s =
     (case get_singleton e SlideSettings ''slide_settings'' (slide_settings s) of
        (r, coll) \<Rightarrow> (r, s\<lparr>slide_settings := coll\<rparr>))"

definition update_slide_settings :: "doc \<Rightarrow> env \<Rightarrow> db \<Rightarrow> (error + doc) \<times> db" where
  "update_slide_settings settings_update e s =
     (let update_data = not_none settings_update
      in case put_singleton e SlideSettings ''slide_settings'' update_data (slide_settings s) of
           (r, coll) \<Rightarrow> (r, s\<lparr>slide_settings := coll\<rparr>))"

definition get_bluetooth_settings :: "env \<Rightarrow> db \<Rightarrow> (error + doc) \<times> db" where
  "get_bluetooth_settings e s =
     (case get_singleton e BluetoothRemote ''bluetooth_remote'' (bluetooth_remote s) of
        (r, coll) \<Rightarrow> (r, s\<lparr>bluetooth_remote := coll\<rparr>))"

definition update_bluetooth_settings :: "doc \<Rightarrow> env \<Rightarrow> db \<Rightarrow> (error + doc) \<times> db" where
  "update_bluetooth_settings settings_update e s =
     (let update_data = not_none settings_update
      in case put_singleton e BluetoothRemote ''bluetooth_remote'' update_data
                (bluetooth_remote s) of
           (r, coll) \<Rightarrow> (r, s\<lparr>bluetooth_remote := coll\<rparr>))"

definition get_voice_settings :: "env \<Rightarrow> db \<Rightarrow> (error + doc) \<times> db" where
  "get_voice_settings e s =
     (case get_singleton e VoiceSettings ''voice_settings'' (voice_settings s) of
        (r, coll) \<Rightarrow> (r, s\<lparr>voice_settings := coll\<rparr>))"

definition update_voice_settings :: "doc \<Rightarrow> env \<Rightarrow> db \<Rightarrow> (error + doc) \<times> db" where
  "update_voice_settings settings_update e s =
     (let update_data = not_none settings_update
      in case put_singleton e VoiceSettings ''voice_settings'' update_data (voice_settings s) of
           (r, coll) \<Rightarrow> (r, s\<lparr>voice_settings := coll\<rparr>))"


section \<open>The current number\<close>

definition get_current_number :: "env \<Rightarrow> db \<Rightarrow> (error + doc) \<times> db" where
  "get_current_number e s =
     (case get_singleton e CurrentNumber ''current_number'' (current_number s) of
        (r, coll) \<Rightarrow> (r, s\<lparr>current_number := coll\<rparr>))"

text \<open>
  \<^verbatim>\<open>obj.k\<close> for a model instance given by its \<^verbatim>\<open>dict()\<close>, in which every declared field is
  present.
\<close>

definition attr :: "doc \<Rightarrow> string \<Rightarrow> pyval" where
  "attr obj k = (case map_of obj k of None \<Rightarrow> VNone | Some v \<Rightarrow> v)"

definition update_number :: "doc \<Rightarrow> env \<Rightarrow> db \<Rightarrow> (error + doc) \<times> db" where
  "update_number number_update e s =
     (let update_data =
            [(''number'', attr number_update ''number''), (''updated_at'', VTime (utcnow e))]
      in case put_singleton e CurrentNumber ''current_number'' update_data (current_number s) of
           (r, coll) \<Rightarrow> (r, s\<lparr>current_number := coll\<rparr>))"

text \<open>\<^verbatim>\<open>d.get(k, fallback)\<close>\<close>

definition dict_get :: "doc \<Rightarrow> string \<Rightarrow> pyval \<Rightarrow> pyval" where
  "dict_get d k fallback = (case map_of d k of None \<Rightarrow> fallback | Some v \<Rightarrow> v)"

text \<open>
  \<^verbatim>\<open>v + k\<close> (with \<^verbatim>\<open>v - 1\<close> as \<open>k = - 1\<close>) and \<^verbatim>\<open>max(k, v)\<close> for an integer \<open>k\<close>, as Python
  evaluates them on a value read from the store: a boolean counts as 0 or 1, \<^verbatim>\<open>max\<close>
  keeps its first argument unless the second is greater, and \<^verbatim>\<open>None\<close>, strings and dates
  raise a type error.
\<close>

fun py_add :: "pyval \<Rightarrow> int \<Rightarrow> error + pyval" where
  "py_add (VInt n) k = Inr (VInt (n + k))"
| "py_add (VBool b) k = Inr (VInt (of_bool b + k))"
| "py_add (VFloat r) k = Inr (VFloat (r + of_int k))"
| "py_add v k = Inl TypeError"

fun py_max :: "int \<Rightarrow> pyval \<Rightarrow> error + pyval" where
  "py_max k (VInt n) = Inr (VInt (if k < n then n else k))"
| "py_max k (VBool b) = Inr (if k < of_bool b then VBool b else VInt k)"
| "py_max k (VFloat r) = Inr (if of_int k < r then VFloat r else VInt k)"
| "py_max k v = Inl TypeError"

text \<open>
  The first lines of \<^verbatim>\<open>increment_number\<close> and \<^verbatim>\<open>decrement_number\<close>: the document found, or
  the \<^verbatim>\<open>dict()\<close> of a default \<^verbatim>\<open>CurrentNumber\<close>, inserted.
\<close>

definition current_or_default :: "env \<Rightarrow> doc list \<Rightarrow> error + doc \<times> doc list" where
  "current_or_default e coll =
     (case find_one [(''id'', VStr ''current_number'')] coll of
        None \<Rightarrow>
          (case validate_model e CurrentNumber [] of
             Inl err \<Rightarrow> Inl err
           | Inr current \<Rightarrow>
               (case insert_one current coll of
                  Inl err \<Rightarrow> Inl err
                | Inr coll' \<Rightarrow> Inr (current, coll')))
      | Some current \<Rightarrow> Inr (current, coll))"

text \<open>The rest of both handlers: \<^verbatim>\<open>update_one\<close> without upsert, \<^verbatim>\<open>find_one\<close>, the model.\<close>

definition store_number :: "pyval \<Rightarrow> env \<Rightarrow> doc list \<Rightarrow> (error + doc) \<times> doc list" where
  "store_number new_number e coll =
     (let update_data = [(''number'', new_number), (''updated_at'', VTime (utcnow e))]
      in case update_one [(''id'', VStr ''current_number'')] update_data False coll of
           Inl err \<Rightarrow> (Inl err, coll)
         | Inr coll' \<Rightarrow>
             (let number = find_one [(''id'', VStr ''current_number'')] coll'
              in (init_model e CurrentNumber number, coll')))"

definition increment_number :: "env \<Rightarrow> db \<Rightarrow> (error + doc) \<times> db" where
  "increment_number e s =
     (case current_or_default e (current_number s) of
        Inl err \<Rightarrow> (Inl err, s)
      | Inr (current, coll) \<Rightarrow>
          (case py_add (dict_get current ''number'' (VInt 1)) 1 of
             Inl err \<Rightarrow> (Inl err, s\<lparr>current_number := coll\<rparr>)
           | Inr new_number \<Rightarrow>
               (case store_number new_number e coll of
                  (r, coll') \<Rightarrow> (r, s\<lparr>current_number := coll'\<rparr>))))"

definition decrement_number :: "env \<Rightarrow> db \<Rightarrow> (error + doc) \<times> db" where
  "decrement_number e s =
     (case current_or_default e (current_number s) of
        Inl err \<Rightarrow> (Inl err, s)
      | Inr (current, coll) \<Rightarrow>
          (case py_add (dict_get current ''number'' (VInt 1)) (- 1) of
             Inl err \<Rightarrow> (Inl err, s\<lparr>current_number := coll\<rparr>)
           | Inr lowered \<Rightarrow>
               (case py_max 1 lowered of
                  Inl err \<Rightarrow> (Inl err, s\<lparr>current_number := coll\<rparr>)
                | Inr new_number \<Rightarrow>
                    (case store_number new_number e coll of
                       (r, coll') \<Rightarrow> (r, s\<lparr>current_number := coll'\<rparr>)))))"

definition reset_number :: "env \<Rightarrow> db \<Rightarrow> (error + doc) \<times> db" where
  "reset_number e s =
     (let update_data = [(''number'', VInt 1), (''updated_at'', VTime (utcnow e))]
      in case put_singleton e CurrentNumber ''current_number'' update_data (current_number s) of
           (r, coll) \<Rightarrow> (r, s\<lparr>current_number := coll\<rparr>))"

text \<open>The number a response or a stored document shows, when it shows an integer.\<close>

definition number_of :: "doc \<Rightarrow> int option" where
  "number_of d = (case map_of d ''number'' of Some (VInt n) \<Rightarrow> Some n | _ \<Rightarrow> None)"

definition stored_number :: "db \<Rightarrow> int option" where
  "stored_number s =
     (case find_one [(''id'', VStr ''current_number'')] (current_number s) of
        None \<Rightarrow> None
      | Some d \<Rightarrow> number_of d)"


section \<open>Slide images\<close>

text \<open>A list comprehension that builds a model from every element: the first error ends it.\<close>

fun validate_all :: "env \<Rightarrow> field list \<Rightarrow> doc list \<Rightarrow> error + doc list" where
  "validate_all e model [] = Inr []"
| "validate_all e model (d # ds) =
     (case validate_model e model d of
        Inl err \<Rightarrow> Inl err
      | Inr r \<Rightarrow>
          (case validate_all e model ds of
             Inl err \<Rightarrow> Inl err
           | Inr rs \<Rightarrow> Inr (r # rs)))"

definition get_slides :: "env \<Rightarrow> db \<Rightarrow> (error + doc list) \<times> db" where
  "get_slides e s =
     (let slides = find_sorted ''order'' 100 (slide_images s)
      in (validate_all e SlideImage slides, s))"


definition delete_slide :: "string \<Rightarrow> db \<Rightarrow> (error + string) \<times> db" where
  "delete_slide slide_id s =
     (case delete_one [(''id'', VStr slide_id)] (slide_images s) of
        (coll, deleted_count) \<Rightarrow>
          if deleted_count = 0
          then (Inl (HTTPException 404 ''Slide not found''), s\<lparr>slide_images := coll\<rparr>)
          else (Inr ''Slide deleted successfully'', s\<lparr>slide_images := coll\<rparr>))"

text \<open>
  The loop of \<^verbatim>\<open>reorder_slides\<close> over the request's list of dicts.  \<^verbatim>\<open>item["id"]\<close> is read
  before \<^verbatim>\<open>item["order"]\<close>; a missing key raises \<^verbatim>\<open>KeyError\<close>, and a value that does not
  encode raises \<^verbatim>\<open>OverflowError\<close>, after the updates of the earlier items are done.
\<close>

fun reorder_loop :: "doc list \<Rightarrow> doc list \<Rightarrow> error option \<times> doc list" where
  "reorder_loop [] coll = (None, coll)"
| "reorder_loop (item # items) coll =
     (case map_of item ''id'' of
        None \<Rightarrow> (Some (KeyError ''id''), coll)
      | Some item_id \<Rightarrow>
          (case map_of item ''order'' of
             None \<Rightarrow> (Some (KeyError ''order''), coll)
           | Some item_order \<Rightarrow>
               (case update_one [(''id'', item_id)] [(''order'', item_order)] False coll of
                  Inl err \<Rightarrow> (Some err, coll)
                | Inr coll' \<Rightarrow> reorder_loop items coll')))"

definition reorder_slides :: "doc list \<Rightarrow> db \<Rightarrow> (error + string) \<times> db" where
  "reorder_slides slide_orders s =
     (case reorder_loop slide_orders (slide_images s) of
        (Some err, coll) \<Rightarrow> (Inl err, s\<lparr>slide_images := coll\<rparr>)
      | (None, coll) \<Rightarrow> (Inr ''Slides reordered successfully'', s\<lparr>slide_images := coll\<rparr>))"


section \<open>The news feed\<close>

text \<open>
  \<^verbatim>\<open>feedparser.parse\<close> is a parameter: for a URL it raises an exception, given by its text
  \<^verbatim>\<open>str(e)\<close>, or returns a result.  The library does not raise when it cannot fetch
  the URL or when the feed is malformed: it returns a result with the flag \<^verbatim>\<open>bozo\<close> set and
  with the entries it could read, none for a URL it could not reach.  The handler reads
  only the entries.  An entry has string attributes; reading an attribute it lacks raises
  \<^verbatim>\<open>AttributeError\<close>.  Everything happens inside the handler's \<^verbatim>\<open>try\<close>, whose
  \<^verbatim>\<open>except Exception\<close> branch returns a body.
\<close>

type_synonym entry = "(string \<times> string) list"

record feed =
  bozo :: bool
  entries :: "entry list"

record news_response =
  news :: "entry list"
  error :: "string option"

definition entry_attr :: "entry \<Rightarrow> string \<Rightarrow> string + string" where
  "entry_attr entry k =
     (case map_of entry k of
        None \<Rightarrow> Inl (''object has no attribute '' @ [CHR 0x27] @ k @ [CHR 0x27])
      | Some v \<Rightarrow> Inr v)"

fun news_items :: "entry list \<Rightarrow> string + entry list" where
  "news_items [] = Inr []"
| "news_items (entry # rest) =
     (case entry_attr entry ''title'' of
        Inl exn \<Rightarrow> Inl exn
      | Inr title \<Rightarrow>
          (case entry_attr entry ''link'' of
             Inl exn \<Rightarrow> Inl exn
           | Inr link \<Rightarrow>
               (case news_items rest of
                  Inl exn \<Rightarrow> Inl exn
                | Inr items \<Rightarrow>
                    Inr ([(''title'', title), (''link'', link),
                          (''published'',
                             (case map_of entry ''published'' of None \<Rightarrow> [] | Some p \<Rightarrow> p))]
                         # items))))"

definition rss_url :: "db \<Rightarrow> pyval" where
  "rss_url s =
     (case find_one [(''id'', VStr ''main_config'')] (app_config s) of
        None \<Rightarrow> VStr ''https://news.google.com/rss?hl=it&gl=IT&ceid=IT:it''
      | Some config \<Rightarrow>
          dict_get config ''rss_feed_url''
            (VStr ''https://news.google.com/rss?hl=it&gl=IT&ceid=IT:it''))"

definition get_news_feed :: "(pyval \<Rightarrow> string + feed) \<Rightarrow> db \<Rightarrow> error + news_response" where
  "get_news_feed feedparser_parse s =
     (case feedparser_parse (rss_url s) of
        Inl exn \<Rightarrow> Inr \<lparr>news = [], error = Some exn\<rparr>
      | Inr parsed \<Rightarrow>
          (case news_items (take 20 (entries parsed)) of
             Inl exn \<Rightarrow> Inr \<lparr>news = [], error = Some exn\<rparr>
           | Inr items \<Rightarrow> Inr \<lparr>news = items, error = None\<rparr>))"


section \<open>The router\<close>


datatype response = Model doc | Message string

definition respond :: "('a \<Rightarrow> response) \<Rightarrow> (error + 'a) \<times> db \<Rightarrow> (error + response) \<times> db" where
  "respond wrap r = (case r of (Inl err, s) \<Rightarrow> (Inl err, s) | (Inr x, s) \<Rightarrow> (Inr (wrap x), s))"



text \<open>
  The singleton collections hold only documents from which their models can be built and
  which the driver can have written: every integer in them fits in 8 bytes.
\<close>

definition fits :: "field list \<Rightarrow> doc \<Rightarrow> bool" where
  "fits fs d = (conforms fs d \<and> encodable d)"

definition store_ok :: "db \<Rightarrow> bool" where
  "store_ok s =
     (list_all (fits AppConfig) (app_config s) \<and>
      list_all (fits SlideSettings) (slide_settings s) \<and>
      list_all (fits CurrentNumber) (current_number s) \<and>
      list_all (fits BluetoothRemote) (bluetooth_remote s) \<and>
      list_all (fits VoiceSettings) (voice_settings s))"





section \<open>The singleton resources\<close>

text \<open>
  The five singleton resources, each with its collection, its fixed id, its model, the
  model of its \<^verbatim>\<open>PUT\<close> body, and its \<^verbatim>\<open>GET\<close> and \<^verbatim>\<open>PUT\<close> handlers.
\<close>

datatype singleton = Config | Settings | Number | Bluetooth | Voice

fun collection :: "singleton \<Rightarrow> db \<Rightarrow> doc list" where
  "collection Config = app_config"
| "collection Settings = slide_settings"
| "collection Number = current_number"
| "collection Bluetooth = bluetooth_remote"
| "collection Voice = voice_settings"

fun with_collection :: "singleton \<Rightarrow> doc list \<Rightarrow> db \<Rightarrow> db" where
  "with_collection Config coll s = s\<lparr>app_config := coll\<rparr>"
| "with_collection Settings coll s = s\<lparr>slide_settings := coll\<rparr>"
| "with_collection Number coll s = s\<lparr>current_number := coll\<rparr>"
| "with_collection Bluetooth coll s = s\<lparr>bluetooth_remote := coll\<rparr>"
| "with_collection Voice coll s = s\<lparr>voice_settings := coll\<rparr>"

fun fixed_id :: "singleton \<Rightarrow> string" where
  "fixed_id Config = ''main_config''"
| "fixed_id Settings = ''slide_settings''"
| "fixed_id Number = ''current_number''"
| "fixed_id Bluetooth = ''bluetooth_remote''"
| "fixed_id Voice = ''voice_settings''"

fun model :: "singleton \<Rightarrow> field list" where
  "model Config = AppConfig"
| "model Settings = SlideSettings"
| "model Number = CurrentNumber"
| "model Bluetooth = BluetoothRemote"
| "model Voice = VoiceSettings"

fun update_model :: "singleton \<Rightarrow> field list" where
  "update_model Config = AppConfigUpdate"
| "update_model Settings = SlideSettingsUpdate"
| "update_model Number = NumberUpdate"
| "update_model Bluetooth = BluetoothRemoteUpdate"
| "update_model Voice = VoiceSettingsUpdate"

fun get :: "singleton \<Rightarrow> env \<Rightarrow> db \<Rightarrow> (error + doc) \<times> db" where
  "get Config = get_config"
| "get Settings = get_slide_settings"
| "get Number = get_current_number"
| "get Bluetooth = get_bluetooth_settings"
| "get Voice = get_voice_settings"

fun put :: "singleton \<Rightarrow> doc \<Rightarrow> env \<Rightarrow> db \<Rightarrow> (error + doc) \<times> db" where
  "put Config = update_config"
| "put Settings = update_slide_settings"
| "put Number = update_number"
| "put Bluetooth = update_bluetooth_settings"
| "put Voice = update_voice_settings"

text \<open>The models with an \<^verbatim>\<open>updated_at\<close> field, which their \<^verbatim>\<open>PUT\<close> handlers set to the clock.\<close>

fun stamped :: "singleton \<Rightarrow> bool" where
  "stamped Config = True"
| "stamped Number = True"
| "stamped r = False"


section \<open>Auxiliary notions for the proofs\<close>

text \<open>
  The document that an upserting \<^verbatim>\<open>update_one\<close> with the filter \<^verbatim>\<open>{"id": key}\<close> writes to:
  the first one with that id, or the new one that holds the filter's field.
\<close>

definition target :: "string \<Rightarrow> doc list \<Rightarrow> doc" where
  "target key coll =
     (case find_one [(''id'', VStr key)] coll of
        None \<Rightarrow> [(''id'', VStr key)]
      | Some d \<Rightarrow> d)"


text \<open>
  What a model constructor yields from a document that conforms: every declared field,
  from the document or else from its default.
\<close>

definition default_of :: "env \<Rightarrow> field \<Rightarrow> pyval" where
  "default_of e f =
     (case fdefault f of
        Required \<Rightarrow> VNone
      | Default v \<Rightarrow> v
      | Factory_utcnow \<Rightarrow> VTime (factory_utcnow e (fname f))
      | Factory_uuid4 \<Rightarrow> VStr (factory_uuid4 e (fname f)))"

definition model_dict :: "env \<Rightarrow> field list \<Rightarrow> doc \<Rightarrow> doc" where
  "model_dict e fs d = map (\<lambda>f. (fname f, dict_get d (fname f) (default_of e f))) fs"

text \<open>The fields a \<^verbatim>\<open>PUT\<close> body supplies: those it holds with a value other than \<^verbatim>\<open>None\<close>.\<close>

definition supplied :: "doc \<Rightarrow> string \<Rightarrow> pyval option" where
  "supplied body k = map_of (not_none body) k"

text \<open>A stored slide image: a document that conforms to the model and holds its order.\<close>

definition stored_slide :: "doc \<Rightarrow> bool" where
  "stored_slide d = (conforms SlideImage d \<and> map_of d ''order'' \<noteq> None)"


text \<open>The update data that each \<^verbatim>\<open>PUT\<close> handler passes to \<^verbatim>\<open>$set\<close>.\<close>

definition update_data :: "singleton \<Rightarrow> doc \<Rightarrow> env \<Rightarrow> doc" where
  "update_data r body e =
     (case r of
        Config \<Rightarrow> AList.update ''updated_at'' (VTime (utcnow e)) (not_none body)
      | Number \<Rightarrow> [(''number'', attr body ''number''), (''updated_at'', VTime (utcnow e))]
      | _ \<Rightarrow> not_none body)"

text \<open>A body model and a model give the fields they share the same type.\<close>

definition compatible :: "field list \<Rightarrow> field list \<Rightarrow> bool" where
  "compatible us fs = (\<forall>u \<in> set us. \<forall>f \<in> set fs. fname f = fname u \<longrightarrow> ftype f = ftype u)"


text \<open>The order of a stored slide image, as an integer.\<close>

definition int_order :: "doc \<Rightarrow> int" where
  "int_order d = (case map_of d ''order'' of Some (VInt n) \<Rightarrow> n | _ \<Rightarrow> 0)"


section \<open>The default documents\<close>

text \<open>
  The \<^verbatim>\<open>dict()\<close> of each singleton model built without arguments, for given readings of
  the clock.
\<close>

definition default_AppConfig :: "nat \<Rightarrow> nat \<Rightarrow> doc" where
  "default_AppConfig created updated =
    [(''id'', VStr ''main_config''),
     (''restaurant_name'', VStr ''Number ONE''),
     (''city'', VStr ''ROMA''),
     (''logo_base64'', VNone),
     (''theme_primary_color'', VStr ''#FF0000''),
     (''theme_secondary_color'', VStr ''#2C3E50''),
     (''theme_text_color'', VStr ''#FFFFFF''),
     (''rss_feed_url'', VStr ''https://news.google.com/rss?hl=it&gl=IT&ceid=IT:it''),
     (''weather_api_key'', VNone),
     (''created_at'', VTime created),
     (''updated_at'', VTime updated)]"

definition default_SlideSettings :: doc where
  "default_SlideSettings =
    [(''id'', VStr ''slide_settings''), (''interval_seconds'', VInt 10),
     (''transition_effect'', VStr ''fade''), (''auto_play'', VBool True)]"

definition default_CurrentNumber :: "nat \<Rightarrow> doc" where
  "default_CurrentNumber updated =
    [(''id'', VStr ''current_number''), (''number'', VInt 1), (''updated_at'', VTime updated)]"

definition default_BluetoothRemote :: doc where
  "default_BluetoothRemote =
    [(''id'', VStr ''bluetooth_remote''), (''device_name'', VNone), (''device_id'', VNone),
     (''button_a_action'', VStr ''increment''), (''button_b_action'', VStr ''decrement''),
     (''button_c_action'', VStr ''reset''), (''button_d_action'', VStr ''none''),
     (''is_paired'', VBool False)]"

definition default_VoiceSettings :: doc where
  "default_VoiceSettings =
    [(''id'', VStr ''voice_settings''), (''enabled'', VBool True),
     (''voice_type'', VStr ''female''), (''pitch'', VFloat 1), (''rate'', VFloat 1),
     (''phrase_template'', VStr ''Numero {number}''), (''language'', VStr ''it-IT'')]"


section \<open>Example states\<close>

definition env0 :: env where
  "env0 = \<lparr>utcnow = 7654321, factory_utcnow = (\<lambda>f. 7654321), factory_uuid4 = (\<lambda>f. ''u''),
     convert = (\<lambda>ty v. None)\<rparr>"

definition env_past :: env where
  "env_past = \<lparr>utcnow = 0, factory_utcnow = (\<lambda>f. 0), factory_uuid4 = (\<lambda>f. ''u''),
     convert = (\<lambda>ty v. None)\<rparr>"

text \<open>A pydantic that converts the string \<^verbatim>\<open>"0"\<close> to the integer 0.\<close>

definition env_lax :: env where
  "env_lax = \<lparr>utcnow = 0, factory_utcnow = (\<lambda>f. 0), factory_uuid4 = (\<lambda>f. ''u''),
     convert = (\<lambda>ty v. if ty = TInt \<and> v = VStr ''0'' then Some (VInt 0) else None)\<rparr>"

definition number_db :: "int \<Rightarrow> db" where
  "number_db n = empty_db\<lparr>current_number :=
     [[(''id'', VStr ''current_number''), (''number'', VInt n), (''updated_at'', VTime 0)]]\<rparr>"

definition slide :: "string \<Rightarrow> int \<Rightarrow> doc" where
  "slide i n = [(''id'', VStr i), (''image_base64'', VStr ''img''), (''order'', VInt n),
     (''created_at'', VTime 0)]"

definition slides_db :: db where
  "slides_db = empty_db\<lparr>slide_images := [slide ''a'' 2, slide ''b'' 1, slide ''c'' 3]\<rparr>"

definition config_db :: db where
  "config_db = empty_db\<lparr>app_config := [default_AppConfig 0 0]\<rparr>"

definition city_body :: doc where
  "city_body =
    [(''restaurant_name'', VNone), (''city'', VStr ''MILANO''), (''logo_base64'', VNone),
     (''theme_primary_color'', VNone), (''theme_secondary_color'', VNone),
     (''theme_text_color'', VNone), (''rss_feed_url'', VNone), (''weather_api_key'', VNone)]"

definition pitch_body :: doc where
  "pitch_body =
    [(''enabled'', VNone), (''voice_type'', VNone), (''pitch'', VFloat 2), (''rate'', VNone),
     (''phrase_template'', VNone), (''language'', VNone)]"


definition settings_db :: db where
  "settings_db = empty_db\<lparr>slide_settings := [default_SlideSettings]\<rparr>"

definition interval_body :: doc where
  "interval_body =
    [(''interval_seconds'', VInt (2 ^ 63)), (''transition_effect'', VNone), (''auto_play'', VNone)]"


section \<open>Lemmas about the store\<close>

lemma bson_eq_VStr [simp]: "bson_eq w (VStr k) = (w = VStr k)"
  by (cases w) simp_all

lemma matches_id [simp]: "matches [(''id'', VStr k)] d = (map_of d ''id'' = Some (VStr k))"
  by (simp add: matches_def field_matches_def split: option.splits)

lemma map_of_apply_set: "map_of (apply_set sets d) = map_of d ++ map_of (rev sets)"
  by (induction sets arbitrary: d) (auto simp: update_conv' fun_eq_iff map_add_def split: option.splits)

lemma find_modify_first:
  "p (f d) \<Longrightarrow> List.find p coll = Some d \<Longrightarrow> List.find p (modify_first p f coll) = Some (f d)"
  by (induction coll) (auto split: if_splits)

lemma list_ex_find: "list_ex p xs = (List.find p xs \<noteq> None)"
  by (induction xs) auto

lemma find_append_none: "List.find p xs = None \<Longrightarrow> List.find p (xs @ ys) = List.find p ys"
  by (induction xs) (auto split: if_splits)

lemma map_of_target_id: "map_of (target key coll) ''id'' = Some (VStr key)"
  unfolding target_def find_one_def
  by (auto split: option.splits dest: find_Some_iff[THEN iffD1] simp: find_Some_iff)

lemma find_one_update_docs_upsert:
  assumes "map_of sets ''id'' = None"
  shows "find_one [(''id'', VStr key)] (update_docs [(''id'', VStr key)] sets True coll)
         = Some (apply_set sets (target key coll))"
proof -
  have "map_of (rev sets) ''id'' = None"
    using assms by (simp add: map_of_eq_None_iff)
  then have keep: "\<And>d. map_of d ''id'' = Some (VStr key) \<Longrightarrow> map_of (apply_set sets d) ''id'' = Some (VStr key)"
    by (simp add: map_of_apply_set map_add_def)
  show ?thesis
  proof (cases "List.find (matches [(''id'', VStr key)]) coll")
    case None
    then show ?thesis using keep[of "[(''id'', VStr key)]"]
      by (simp add: find_one_def update_docs_def list_ex_find target_def find_append_none)
  next
    case (Some d)
    then have "map_of d ''id'' = Some (VStr key)" by (auto simp: find_Some_iff)
    with Some show ?thesis using keep[of d] find_modify_first[of "matches [(''id'', VStr key)]" "apply_set sets" d coll]
      by (simp add: find_one_def update_docs_def list_ex_find target_def)
  qed
qed

lemma update_docs_found:
  "find_one flt coll \<noteq> None \<Longrightarrow> update_docs flt sets upsert coll = update_docs flt sets True coll"
  by (simp add: update_docs_def find_one_def list_ex_find)

text \<open>Encoding: a filter on the id always encodes; an operand encodes when its integers fit.\<close>

lemma encode_id [simp]: "encode [(''id'', VStr k)] = Inr [(''id'', VStr k)]"
  by (simp add: encode_def encodable_def to_bson_doc_def)

lemma update_one_id:
  "update_one [(''id'', VStr k)] sets upsert coll =
     (if encodable sets then Inr (update_docs [(''id'', VStr k)] (to_bson_doc sets) upsert coll)
      else Inl OverflowError)"
  by (simp add: update_one_def encode_def[of sets])

lemma map_of_to_bson_doc: "map_of (to_bson_doc d) k = map_option to_bson (map_of d k)"
  by (induction d) (auto simp: to_bson_doc_def)

lemma to_bson_doc_keys [simp]: "map fst (to_bson_doc d) = map fst d"
  by (simp add: to_bson_doc_def comp_def)

lemma storable_to_bson [simp]: "storable (to_bson v) = storable v"
  by (cases v) simp_all

lemma encodable_to_bson_doc [simp]: "encodable (to_bson_doc d) = encodable d"
  by (induction d) (simp_all add: encodable_def to_bson_doc_def)

lemma put_singleton_overflow:
  "\<not> encodable sets \<Longrightarrow> put_singleton e fs key sets coll = (Inl OverflowError, coll)"
  by (simp add: put_singleton_def update_one_id)

lemma put_singleton_eq:
  "map_of sets ''id'' = None \<Longrightarrow> encodable sets \<Longrightarrow>
   put_singleton e fs key sets coll =
     (validate_model e fs (apply_set (to_bson_doc sets) (target key coll)),
      update_docs [(''id'', VStr key)] (to_bson_doc sets) True coll)"
  by (simp add: put_singleton_def update_one_id find_one_update_docs_upsert init_model_def
      map_of_to_bson_doc)


section \<open>Decrement, increment and reset\<close>

lemma validate_CurrentNumber:
  "map_of d ''id'' = Some (VStr k) \<Longrightarrow> map_of d ''number'' = Some (VInt n) \<Longrightarrow>
   map_of d ''updated_at'' = Some (VTime t) \<Longrightarrow>
   validate_model e CurrentNumber d =
     Inr [(''id'', VStr k), (''number'', VInt n), (''updated_at'', VTime t)]"
  by (simp add: CurrentNumber_def validate_field_def accepts_def)

lemma put_number:
  assumes "storable (VInt n)"
  shows "put_singleton e CurrentNumber ''current_number''
      [(''number'', VInt n), (''updated_at'', VTime t)] coll =
   (Inr [(''id'', VStr ''current_number''), (''number'', VInt n), (''updated_at'', VTime (millis t))],
    update_docs [(''id'', VStr ''current_number'')]
      [(''number'', VInt n), (''updated_at'', VTime (millis t))] True coll)"
proof -
  have enc: "encodable [(''number'', VInt n), (''updated_at'', VTime t)]"
    using assms by (simp add: encodable_def)
  have bson: "to_bson_doc [(''number'', VInt n), (''updated_at'', VTime t)] =
      [(''number'', VInt n), (''updated_at'', VTime (millis t))]"
    by (simp add: to_bson_doc_def)
  show ?thesis
    by (simp add: put_singleton_eq[OF _ enc] bson validate_CurrentNumber update_conv'
        map_of_target_id)
qed

lemma put_number_overflow:
  "\<not> storable (VInt n) \<Longrightarrow>
   put_singleton e CurrentNumber ''current_number''
      [(''number'', VInt n), (''updated_at'', VTime t)] coll = (Inl OverflowError, coll)"
  by (rule put_singleton_overflow) (simp add: encodable_def)

lemma stored_number_update_docs:
  "stored_number (s\<lparr>current_number := update_docs [(''id'', VStr ''current_number'')]
         [(''number'', VInt n), (''updated_at'', VTime t)] True coll\<rparr>) = Some n"
  by (simp add: stored_number_def find_one_update_docs_upsert number_of_def update_conv')

lemma store_number_eq:
  "store_number v e coll =
     (case update_one [(''id'', VStr ''current_number'')]
             [(''number'', v), (''updated_at'', VTime (utcnow e))] False coll of
        Inl err \<Rightarrow> (Inl err, coll)
      | Inr coll' \<Rightarrow>
          (init_model e CurrentNumber (find_one [(''id'', VStr ''current_number'')] coll'), coll'))"
  by (simp add: store_number_def split: sum.splits)

lemma store_number_found:
  assumes "find_one [(''id'', VStr ''current_number'')] coll \<noteq> None" and "storable (VInt n)"
  shows "store_number (VInt n) e coll =
   (Inr [(''id'', VStr ''current_number''), (''number'', VInt n),
         (''updated_at'', VTime (millis (utcnow e)))],
    update_docs [(''id'', VStr ''current_number'')]
      [(''number'', VInt n), (''updated_at'', VTime (millis (utcnow e)))] True coll)"
proof -
  have enc: "encodable [(''number'', VInt n), (''updated_at'', VTime (utcnow e))]"
    using assms(2) by (simp add: encodable_def)
  have bson: "to_bson_doc [(''number'', VInt n), (''updated_at'', VTime (utcnow e))] =
      [(''number'', VInt n), (''updated_at'', VTime (millis (utcnow e)))]"
    by (simp add: to_bson_doc_def)
  from put_number[OF assms(2), of e "utcnow e" coll]
    update_docs_found[OF assms(1),
      of "[(''number'', VInt n), (''updated_at'', VTime (millis (utcnow e)))]" False]
  show ?thesis
    by (simp add: store_number_eq put_singleton_def update_one_id enc bson)
qed

lemma store_number_overflow:
  assumes "\<not> storable (VInt n)"
  shows "store_number (VInt n) e coll = (Inl OverflowError, coll)"
proof -
  have "\<not> encodable [(''number'', VInt n), (''updated_at'', VTime (utcnow e))]"
    using assms by (simp add: encodable_def)
  then show ?thesis by (simp add: store_number_eq update_one_id)
qed

lemma stored_number_SomeD:
  "stored_number s = Some N \<Longrightarrow>
   \<exists>d. find_one [(''id'', VStr ''current_number'')] (current_number s) = Some d \<and>
       map_of d ''number'' = Some (VInt N)"
  by (auto simp: stored_number_def number_of_def split: option.splits pyval.splits)

lemma decrement_stored:
  assumes "stored_number s = Some N" and "N \<le> 2 ^ 63"
  shows "decrement_number e s =
    (Inr [(''id'', VStr ''current_number''), (''number'', VInt (max 1 (N - 1))),
          (''updated_at'', VTime (millis (utcnow e)))],
     s\<lparr>current_number := update_docs [(''id'', VStr ''current_number'')]
        [(''number'', VInt (max 1 (N - 1))), (''updated_at'', VTime (millis (utcnow e)))] True
        (current_number s)\<rparr>)"
proof -
  from stored_number_SomeD[OF assms(1)] obtain d where
    d: "find_one [(''id'', VStr ''current_number'')] (current_number s) = Some d"
       "map_of d ''number'' = Some (VInt N)" by blast
  have m: "py_max 1 (VInt (N - 1)) = Inr (VInt (max 1 (N - 1)))"
    by (simp add: max_def)
  have st: "storable (VInt (max 1 (N - 1)))"
    using assms(2) by (simp add: max_def)
  from d show ?thesis
    by (simp add: decrement_number_def current_or_default_def dict_get_def
        store_number_found[OF _ st] m del: py_max.simps)
qed

lemma validate_default_CurrentNumber:
  "validate_model e CurrentNumber [] = Inr (default_CurrentNumber (factory_utcnow e ''updated_at''))"
  by (simp add: CurrentNumber_def validate_field_def default_CurrentNumber_def)

lemma insert_default_CurrentNumber:
  "insert_one (default_CurrentNumber t) coll = Inr (coll @ [default_CurrentNumber (millis t)])"
  by (simp add: insert_one_def encode_def encodable_def to_bson_doc_def default_CurrentNumber_def)

lemma find_one_append_new:
  "find_one [(''id'', VStr k)] coll = None \<Longrightarrow> map_of d ''id'' = Some (VStr k) \<Longrightarrow>
   find_one [(''id'', VStr k)] (coll @ [d]) = Some d"
  by (simp add: find_one_def find_append_none)

lemma current_or_default_absent:
  assumes "find_one [(''id'', VStr ''current_number'')] coll = None"
  shows "current_or_default e coll =
     Inr (default_CurrentNumber (factory_utcnow e ''updated_at''),
          coll @ [default_CurrentNumber (millis (factory_utcnow e ''updated_at''))])"
  using assms
  by (simp add: current_or_default_def validate_default_CurrentNumber insert_default_CurrentNumber)

lemma decrement_absent:
  assumes "find_one [(''id'', VStr ''current_number'')] (current_number s) = None"
  shows "decrement_number e s =
    (Inr [(''id'', VStr ''current_number''), (''number'', VInt 1),
          (''updated_at'', VTime (millis (utcnow e)))],
     s\<lparr>current_number := update_docs [(''id'', VStr ''current_number'')]
        [(''number'', VInt 1), (''updated_at'', VTime (millis (utcnow e)))] True
        (current_number s @ [default_CurrentNumber (millis (factory_utcnow e ''updated_at''))])\<rparr>)"
proof -
  have f: "find_one [(''id'', VStr ''current_number'')]
      (current_number s @ [default_CurrentNumber (millis (factory_utcnow e ''updated_at''))]) \<noteq> None"
    using find_one_append_new[OF assms, of "default_CurrentNumber (millis (factory_utcnow e ''updated_at''))"]
    by (simp add: default_CurrentNumber_def)
  have st: "storable (VInt 1)" by simp
  show ?thesis
    by (simp add: decrement_number_def current_or_default_absent[OF assms] dict_get_def
        default_CurrentNumber_def store_number_found[OF f[unfolded default_CurrentNumber_def] st])
qed

text \<open>
  Claim C1.  Whatever integer \<open>N\<close> the current-number document stores,
  \<^verbatim>\<open>POST /number/decrement\<close> returns and stores \<open>max 1 (N - 1)\<close>, which is never below 1
  and is 1 when \<open>N\<close> is 1; when there is no document yet, the default 1 is created and
  the result is 1.  (An integer that the store holds fits in 8 bytes and so is below
  \<open>2 ^ 63\<close>.  The \<open>updated_at\<close> returned is the one read back from the store, in
  milliseconds.)
\<close>

theorem decrement_number_floor:
  assumes "(stored_number s = Some N \<and> N \<le> 2 ^ 63) \<or>
    (find_one [(''id'', VStr ''current_number'')] (current_number s) = None \<and> N = 1)"
  shows "fst (decrement_number e s) =
        Inr [(''id'', VStr ''current_number''), (''number'', VInt (max 1 (N - 1))),
             (''updated_at'', VTime (millis (utcnow e)))] \<and>
      stored_number (snd (decrement_number e s)) = Some (max 1 (N - 1)) \<and>
      1 \<le> max 1 (N - 1)"
  using assms
  by (auto simp: decrement_stored decrement_absent stored_number_update_docs
      simp del: max.absorb1 max.absorb2 max.absorb3 max.absorb4)

lemma stored_number_db: "stored_number (number_db n) = Some n"
  by (simp add: number_db_def stored_number_def find_one_def number_of_def)

theorem decrement_number_floor_witness:
  "stored_number (number_db 1) = Some 1 \<and> (1::int) \<le> 2 ^ 63 \<and>
   fst (decrement_number env0 (number_db 1)) =
     Inr [(''id'', VStr ''current_number''), (''number'', VInt 1),
          (''updated_at'', VTime 7654000)] \<and>
   stored_number (snd (decrement_number env0 (number_db 1))) = Some 1"
  using decrement_number_floor[of "number_db 1" 1 env0]
  by (simp add: stored_number_db env0_def millis_def)

lemma increment_stored:
  assumes "stored_number s = Some N" and "storable (VInt (N + 1))"
  shows "increment_number e s =
    (Inr [(''id'', VStr ''current_number''), (''number'', VInt (N + 1)),
          (''updated_at'', VTime (millis (utcnow e)))],
     s\<lparr>current_number := update_docs [(''id'', VStr ''current_number'')]
        [(''number'', VInt (N + 1)), (''updated_at'', VTime (millis (utcnow e)))] True
        (current_number s)\<rparr>)"
proof -
  from stored_number_SomeD[OF assms(1)] obtain d where
    d: "find_one [(''id'', VStr ''current_number'')] (current_number s) = Some d"
       "map_of d ''number'' = Some (VInt N)" by blast
  from d show ?thesis
    by (simp add: increment_number_def current_or_default_def dict_get_def
        store_number_found[OF _ assms(2)])
qed

lemma increment_overflow:
  assumes "stored_number s = Some N" and "\<not> storable (VInt (N + 1))"
  shows "increment_number e s = (Inl OverflowError, s)"
proof -
  from stored_number_SomeD[OF assms(1)] obtain d where
    d: "find_one [(''id'', VStr ''current_number'')] (current_number s) = Some d"
       "map_of d ''number'' = Some (VInt N)" by blast
  from d show ?thesis
    by (simp add: increment_number_def current_or_default_def dict_get_def
        store_number_overflow[OF assms(2)])
qed

text \<open>
  Claim C2, as amended.  From a stored number \<open>N\<close> with \<open>1 \<le> N\<close> and \<open>N + 1\<close> still within 8
  bytes, \<^verbatim>\<open>POST /number/increment\<close> returns \<open>N + 1\<close> and a following
  \<^verbatim>\<open>POST /number/decrement\<close> returns and stores \<open>N\<close> again.
\<close>

theorem increment_then_decrement:
  assumes "1 \<le> N" and "N < 2 ^ 63 - 1" and "stored_number s = Some N"
  shows "fst (increment_number e s) =
        Inr [(''id'', VStr ''current_number''), (''number'', VInt (N + 1)),
             (''updated_at'', VTime (millis (utcnow e)))] \<and>
      fst (decrement_number e' (snd (increment_number e s))) =
        Inr [(''id'', VStr ''current_number''), (''number'', VInt N),
             (''updated_at'', VTime (millis (utcnow e')))] \<and>
      stored_number (snd (decrement_number e' (snd (increment_number e s)))) = Some N"
proof -
  let ?s1 = "snd (increment_number e s)"
  have st: "storable (VInt (N + 1))" using assms(1,2) by simp
  have s1: "stored_number ?s1 = Some (N + 1)"
    by (simp add: increment_stored[OF assms(3) st] stored_number_update_docs)
  have le: "N + 1 \<le> 2 ^ 63" using assms(2) by simp
  have "max 1 (N + 1 - 1) = N" using assms(1) by simp
  with decrement_stored[OF s1 le, of e'] show ?thesis
    by (simp add: increment_stored[OF assms(3) st] stored_number_update_docs)
qed

theorem increment_then_decrement_witness:
  "(1::int) \<le> 4 \<and> (4::int) < 2 ^ 63 - 1 \<and> stored_number (number_db 4) = Some 4 \<and>
   stored_number (snd (decrement_number env0 (snd (increment_number env0 (number_db 4))))) = Some 4"
  using increment_then_decrement[of 4 "number_db 4" env0 env0]
  by (simp add: stored_number_db)

text \<open>
  Claim C2, as stated, fails at the largest integer the store holds, which
  \<^verbatim>\<open>PUT /number\<close> can write: the increment raises \<^verbatim>\<open>OverflowError\<close> and leaves the store as it
  was, and the decrement that follows stores one less.
\<close>

theorem increment_overflows_at_largest:
  "stored_number (number_db (2 ^ 63 - 1)) = Some (2 ^ 63 - 1) \<and>
   increment_number env0 (number_db (2 ^ 63 - 1)) = (Inl OverflowError, number_db (2 ^ 63 - 1)) \<and>
   stored_number
     (snd (decrement_number env0 (snd (increment_number env0 (number_db (2 ^ 63 - 1)))))) =
     Some (2 ^ 63 - 2)"
proof -
  have a: "stored_number (number_db (2 ^ 63 - 1)) = Some (2 ^ 63 - 1)"
    by (rule stored_number_db)
  have b: "increment_number env0 (number_db (2 ^ 63 - 1)) =
      (Inl OverflowError, number_db (2 ^ 63 - 1))"
    by (rule increment_overflow[OF a]) simp
  have c: "stored_number (snd (decrement_number env0 (number_db (2 ^ 63 - 1)))) =
      Some (2 ^ 63 - 2)"
  proof -
    have le: "(2 ^ 63 - 1 :: int) \<le> 2 ^ 63" by simp
    from decrement_stored[OF a le, of env0] show ?thesis
      by (simp add: stored_number_update_docs)
  qed
  from a b c show ?thesis by simp
qed

lemma update_number_eq:
  "update_number [(''number'', VInt n)] e s =
    (if storable (VInt n)
     then (Inr [(''id'', VStr ''current_number''), (''number'', VInt n),
                (''updated_at'', VTime (millis (utcnow e)))],
           s\<lparr>current_number := update_docs [(''id'', VStr ''current_number'')]
             [(''number'', VInt n), (''updated_at'', VTime (millis (utcnow e)))] True
             (current_number s)\<rparr>)
     else (Inl OverflowError, s))"
  by (simp add: update_number_def put_number put_number_overflow attr_def)

lemma reset_number_eq: "reset_number e s = update_number [(''number'', VInt 1)] e s"
  by (simp add: reset_number_def update_number_def attr_def)

text \<open>
  Claim C3.  In every state of the store \<^verbatim>\<open>POST /number/reset\<close> returns and stores the
  number 1, and on an empty collection it creates the document.  \<^verbatim>\<open>PUT /number\<close> stores
  and returns any integer that fits in 8 bytes, negative ones and zero too, and a reset
  after it yields 1.
\<close>

theorem reset_number_always_one:
  "fst (reset_number e s) =
     Inr [(''id'', VStr ''current_number''), (''number'', VInt 1),
          (''updated_at'', VTime (millis (utcnow e)))] \<and>
   stored_number (snd (reset_number e s)) = Some 1 \<and>
   current_number (snd (reset_number e empty_db)) =
     [[(''id'', VStr ''current_number''), (''number'', VInt 1),
       (''updated_at'', VTime (millis (utcnow e)))]] \<and>
   (storable (VInt n) \<longrightarrow>
      fst (update_number [(''number'', VInt n)] e' s) =
        Inr [(''id'', VStr ''current_number''), (''number'', VInt n),
             (''updated_at'', VTime (millis (utcnow e')))] \<and>
      stored_number (snd (update_number [(''number'', VInt n)] e' s)) = Some n \<and>
      fst (reset_number e (snd (update_number [(''number'', VInt n)] e' s))) =
        Inr [(''id'', VStr ''current_number''), (''number'', VInt 1),
             (''updated_at'', VTime (millis (utcnow e)))] \<and>
      stored_number (snd (reset_number e (snd (update_number [(''number'', VInt n)] e' s)))) =
        Some 1)"
proof -
  have one: "storable (VInt 1)" by simp
  have "current_number (snd (reset_number e empty_db)) =
     [[(''id'', VStr ''current_number''), (''number'', VInt 1),
       (''updated_at'', VTime (millis (utcnow e)))]]"
    by (simp add: reset_number_eq update_number_eq empty_db_def update_docs_def)
  then show ?thesis
    using one by (simp add: reset_number_eq update_number_eq stored_number_update_docs)
qed

theorem reset_number_witness:
  "storable (VInt (- 5)) \<and>
   stored_number (snd (update_number [(''number'', VInt (- 5))] env0 empty_db)) = Some (- 5) \<and>
   stored_number
     (snd (reset_number env0 (snd (update_number [(''number'', VInt (- 5))] env0 empty_db)))) =
     Some 1"
  using reset_number_always_one[of env0 empty_db "- 5" env0]
  by simp

section \<open>Deleting a slide image\<close>

lemma find_remove_first:
  "List.find p coll = Some d \<Longrightarrow>
   \<exists>xs ys. coll = xs @ d # ys \<and> List.find p xs = None \<and> remove_first p coll = xs @ ys"
proof (induction coll)
  case Nil
  then show ?case by simp
next
  case (Cons c coll)
  show ?case
  proof (cases "p c")
    case True
    with Cons.prems have "c = d" by simp
    with True show ?thesis by (intro exI[of _ "[]"] exI[of _ coll]) simp
  next
    case False
    with Cons obtain xs ys where "coll = xs @ d # ys" "List.find p xs = None"
      "remove_first p coll = xs @ ys" by auto
    with False show ?thesis by (intro exI[of _ "c # xs"] exI[of _ ys]) simp
  qed
qed

text \<open>
  Claim C6.  \<^verbatim>\<open>DELETE /slides/{id}\<close> with an id that no stored slide has raises the 404
  error and leaves the store as it was; with an id that a stored slide has it removes
  the first such document, keeps every other document in place, and returns the success
  message.
\<close>

theorem delete_slide_not_found_or_one:
  "(find_one [(''id'', VStr slide_id)] (slide_images s) = None \<longrightarrow>
      delete_slide slide_id s = (Inl (HTTPException 404 ''Slide not found''), s)) \<and>
   (\<forall>d. find_one [(''id'', VStr slide_id)] (slide_images s) = Some d \<longrightarrow>
      (\<exists>xs ys. slide_images s = xs @ d # ys \<and>
         find_one [(''id'', VStr slide_id)] xs = None \<and>
         delete_slide slide_id s =
           (Inr ''Slide deleted successfully'', s\<lparr>slide_images := xs @ ys\<rparr>)))"
proof (intro conjI allI impI)
  assume "find_one [(''id'', VStr slide_id)] (slide_images s) = None"
  then show "delete_slide slide_id s = (Inl (HTTPException 404 ''Slide not found''), s)"
    by (simp add: delete_slide_def delete_one_def find_one_def list_ex_find)
next
  fix d assume f: "find_one [(''id'', VStr slide_id)] (slide_images s) = Some d"
  from find_remove_first[OF f[unfolded find_one_def]] obtain xs ys where
    "slide_images s = xs @ d # ys" "List.find (matches [(''id'', VStr slide_id)]) xs = None"
    "remove_first (matches [(''id'', VStr slide_id)]) (slide_images s) = xs @ ys" by blast
  with f show "\<exists>xs ys. slide_images s = xs @ d # ys \<and>
         find_one [(''id'', VStr slide_id)] xs = None \<and>
         delete_slide slide_id s =
           (Inr ''Slide deleted successfully'', s\<lparr>slide_images := xs @ ys\<rparr>)"
    by (intro exI[of _ xs] exI[of _ ys])
      (simp add: delete_slide_def delete_one_def find_one_def list_ex_find)
qed

theorem delete_slide_witness:
  "find_one [(''id'', VStr ''x'')] (slide_images slides_db) = None \<and>
   delete_slide ''x'' slides_db = (Inl (HTTPException 404 ''Slide not found''), slides_db) \<and>
   find_one [(''id'', VStr ''b'')] (slide_images slides_db) = Some (slide ''b'' 1) \<and>
   (\<exists>xs ys. slide_images slides_db = xs @ slide ''b'' 1 # ys \<and>
      find_one [(''id'', VStr ''b'')] xs = None \<and>
      delete_slide ''b'' slides_db =
        (Inr ''Slide deleted successfully'', slides_db\<lparr>slide_images := xs @ ys\<rparr>)) \<and>
   delete_slide ''b'' slides_db =
     (Inr ''Slide deleted successfully'',
      slides_db\<lparr>slide_images := [slide ''a'' 2, slide ''c'' 3]\<rparr>)"
proof -
  have n: "find_one [(''id'', VStr ''x'')] (slide_images slides_db) = None"
    by (simp add: slides_db_def find_one_def slide_def)
  have f: "find_one [(''id'', VStr ''b'')] (slide_images slides_db) = Some (slide ''b'' 1)"
    by (simp add: slides_db_def find_one_def slide_def)
  from delete_slide_not_found_or_one[of "''x''" slides_db] n
  have a: "delete_slide ''x'' slides_db = (Inl (HTTPException 404 ''Slide not found''), slides_db)"
    by simp
  from delete_slide_not_found_or_one[of "''b''" slides_db] f
  have b: "\<exists>xs ys. slide_images slides_db = xs @ slide ''b'' 1 # ys \<and>
      find_one [(''id'', VStr ''b'')] xs = None \<and>
      delete_slide ''b'' slides_db =
        (Inr ''Slide deleted successfully'', slides_db\<lparr>slide_images := xs @ ys\<rparr>)"
    by blast
  have c: "delete_slide ''b'' slides_db =
     (Inr ''Slide deleted successfully'',
      slides_db\<lparr>slide_images := [slide ''a'' 2, slide ''c'' 3]\<rparr>)"
    by (simp add: delete_slide_def delete_one_def slides_db_def slide_def)
  from n f a b c show ?thesis by blast
qed



section \<open>The news feed\<close>

lemma get_news_feed_returns: "\<exists>r. get_news_feed feedparser_parse s = Inr r"
  by (auto simp: get_news_feed_def split: sum.splits)

lemma get_news_feed_raised:
  "feedparser_parse (rss_url s) = Inl exn \<Longrightarrow>
   get_news_feed feedparser_parse s = Inr \<lparr>news = [], error = Some exn\<rparr>"
  by (simp add: get_news_feed_def)

text \<open>
  Claim C8.  The handler never raises, and it reports the text of an exception that
  \<^verbatim>\<open>feedparser.parse\<close> raises.  But for a feed that cannot be fetched or parsed the library
  raises nothing: it returns a result with \<^verbatim>\<open>bozo\<close> set, which the handler does not read.
  For a URL that cannot be reached the body is then an empty \<open>news\<close> list with no \<open>error\<close>
  field, and for a malformed feed it holds the entries that could be read, again with no
  \<open>error\<close> field.
\<close>

theorem news_feed_failure_without_error:
  "get_news_feed (\<lambda>url. Inr \<lparr>bozo = True, entries = []\<rparr>) empty_db =
     Inr \<lparr>news = [], error = None\<rparr> \<and>
   get_news_feed
     (\<lambda>url. Inr \<lparr>bozo = True, entries = [[(''title'', ''t''), (''link'', ''l'')]]\<rparr>) empty_db =
     Inr \<lparr>news = [[(''title'', ''t''), (''link'', ''l''), (''published'', [])]], error = None\<rparr>"
  by (simp add: get_news_feed_def entry_attr_def)


section \<open>The first read of a singleton\<close>

lemma get_config_empty:
  "get_config e empty_db =
     (Inr (default_AppConfig (factory_utcnow e ''created_at'') (factory_utcnow e ''updated_at'')),
      empty_db\<lparr>app_config :=
        [default_AppConfig (millis (factory_utcnow e ''created_at''))
           (millis (factory_utcnow e ''updated_at''))]\<rparr>)"
  by (simp add: get_config_def get_singleton_def empty_db_def find_one_def insert_one_def
      encode_def encodable_def to_bson_doc_def AppConfig_def validate_field_def
      default_AppConfig_def)

lemma get_config_again:
  "get_config e' (empty_db\<lparr>app_config := [default_AppConfig c u]\<rparr>) =
     (Inr (default_AppConfig c u), empty_db\<lparr>app_config := [default_AppConfig c u]\<rparr>)"
  by (simp add: get_config_def get_singleton_def empty_db_def find_one_def
      matches_def field_matches_def
      AppConfig_def validate_field_def accepts_def default_AppConfig_def)

lemma get_slide_settings_empty:
  "get_slide_settings e empty_db =
     (Inr default_SlideSettings, empty_db\<lparr>slide_settings := [default_SlideSettings]\<rparr>)"
  by (simp add: get_slide_settings_def get_singleton_def empty_db_def find_one_def insert_one_def
      encode_def encodable_def to_bson_doc_def SlideSettings_def validate_field_def
      default_SlideSettings_def)

lemma get_slide_settings_again:
  "get_slide_settings e' (empty_db\<lparr>slide_settings := [default_SlideSettings]\<rparr>) =
     (Inr default_SlideSettings, empty_db\<lparr>slide_settings := [default_SlideSettings]\<rparr>)"
  by (simp add: get_slide_settings_def get_singleton_def empty_db_def find_one_def
      matches_def field_matches_def
      SlideSettings_def validate_field_def accepts_def default_SlideSettings_def)

lemma get_current_number_empty:
  "get_current_number e empty_db =
     (Inr (default_CurrentNumber (factory_utcnow e ''updated_at'')),
      empty_db\<lparr>current_number :=
        [default_CurrentNumber (millis (factory_utcnow e ''updated_at''))]\<rparr>)"
  by (simp add: get_current_number_def get_singleton_def empty_db_def find_one_def insert_one_def
      encode_def encodable_def to_bson_doc_def CurrentNumber_def validate_field_def
      default_CurrentNumber_def)

lemma get_current_number_again:
  "get_current_number e' (empty_db\<lparr>current_number := [default_CurrentNumber u]\<rparr>) =
     (Inr (default_CurrentNumber u), empty_db\<lparr>current_number := [default_CurrentNumber u]\<rparr>)"
  by (simp add: get_current_number_def get_singleton_def empty_db_def find_one_def
      matches_def field_matches_def
      CurrentNumber_def validate_field_def accepts_def default_CurrentNumber_def)

lemma get_bluetooth_settings_empty:
  "get_bluetooth_settings e empty_db =
     (Inr default_BluetoothRemote, empty_db\<lparr>bluetooth_remote := [default_BluetoothRemote]\<rparr>)"
  by (simp add: get_bluetooth_settings_def get_singleton_def empty_db_def find_one_def insert_one_def
      encode_def encodable_def to_bson_doc_def BluetoothRemote_def validate_field_def
      default_BluetoothRemote_def)

lemma get_bluetooth_settings_again:
  "get_bluetooth_settings e' (empty_db\<lparr>bluetooth_remote := [default_BluetoothRemote]\<rparr>) =
     (Inr default_BluetoothRemote, empty_db\<lparr>bluetooth_remote := [default_BluetoothRemote]\<rparr>)"
  by (simp add: get_bluetooth_settings_def get_singleton_def empty_db_def find_one_def
      matches_def field_matches_def
      BluetoothRemote_def validate_field_def accepts_def default_BluetoothRemote_def)

lemma get_voice_settings_empty:
  "get_voice_settings e empty_db =
     (Inr default_VoiceSettings, empty_db\<lparr>voice_settings := [default_VoiceSettings]\<rparr>)"
  by (simp add: get_voice_settings_def get_singleton_def empty_db_def find_one_def insert_one_def
      encode_def encodable_def to_bson_doc_def VoiceSettings_def validate_field_def
      default_VoiceSettings_def)

lemma get_voice_settings_again:
  "get_voice_settings e' (empty_db\<lparr>voice_settings := [default_VoiceSettings]\<rparr>) =
     (Inr default_VoiceSettings, empty_db\<lparr>voice_settings := [default_VoiceSettings]\<rparr>)"
  by (simp add: get_voice_settings_def get_singleton_def empty_db_def find_one_def
      matches_def field_matches_def
      VoiceSettings_def validate_field_def accepts_def default_VoiceSettings_def)

text \<open>
  Claim C4.  On the empty store the \<^verbatim>\<open>GET\<close> of each of the five singletons returns the
  model's default values and inserts that one document in its own collection, leaving
  the other collections empty; a second \<^verbatim>\<open>GET\<close> returns the document that the first one
  stored and leaves the store as the first left it.  The stored document holds the
  default values, with the two timestamps of \<^verbatim>\<open>AppConfig\<close> and the one of \<^verbatim>\<open>CurrentNumber\<close> in
  the store's milliseconds: the first response shows the clock's reading, the second
  one and every later one that reading cut to milliseconds.
\<close>

theorem singleton_get_creates_default_once:
  "get_config e empty_db =
     (Inr (default_AppConfig (factory_utcnow e ''created_at'') (factory_utcnow e ''updated_at'')),
      empty_db\<lparr>app_config :=
        [default_AppConfig (millis (factory_utcnow e ''created_at''))
           (millis (factory_utcnow e ''updated_at''))]\<rparr>) \<and>
   get_config e' (snd (get_config e empty_db)) =
     (Inr (default_AppConfig (millis (factory_utcnow e ''created_at''))
             (millis (factory_utcnow e ''updated_at''))),
      snd (get_config e empty_db)) \<and>
   get_slide_settings e empty_db =
     (Inr default_SlideSettings, empty_db\<lparr>slide_settings := [default_SlideSettings]\<rparr>) \<and>
   get_slide_settings e' (snd (get_slide_settings e empty_db)) =
     (Inr default_SlideSettings, snd (get_slide_settings e empty_db)) \<and>
   get_current_number e empty_db =
     (Inr (default_CurrentNumber (factory_utcnow e ''updated_at'')),
      empty_db\<lparr>current_number :=
        [default_CurrentNumber (millis (factory_utcnow e ''updated_at''))]\<rparr>) \<and>
   get_current_number e' (snd (get_current_number e empty_db)) =
     (Inr (default_CurrentNumber (millis (factory_utcnow e ''updated_at''))),
      snd (get_current_number e empty_db)) \<and>
   get_bluetooth_settings e empty_db =
     (Inr default_BluetoothRemote, empty_db\<lparr>bluetooth_remote := [default_BluetoothRemote]\<rparr>) \<and>
   get_bluetooth_settings e' (snd (get_bluetooth_settings e empty_db)) =
     (Inr default_BluetoothRemote, snd (get_bluetooth_settings e empty_db)) \<and>
   get_voice_settings e empty_db =
     (Inr default_VoiceSettings, empty_db\<lparr>voice_settings := [default_VoiceSettings]\<rparr>) \<and>
   get_voice_settings e' (snd (get_voice_settings e empty_db)) =
     (Inr default_VoiceSettings, snd (get_voice_settings e empty_db))"
  by (simp only: get_config_empty get_config_again get_slide_settings_empty
      get_slide_settings_again get_current_number_empty get_current_number_again
      get_bluetooth_settings_empty get_bluetooth_settings_again get_voice_settings_empty
      get_voice_settings_again snd_conv simp_thms)

section \<open>Model construction and the slide listing\<close>

lemma validate_field_conforms:
  "field_conforms d f \<Longrightarrow>
   validate_field e f d = Inr (dict_get d (fname f) (default_of e f))"
  by (auto simp: field_conforms_def validate_field_def dict_get_def default_of_def
      split: option.splits dflt.splits)

lemma validate_model_conforms:
  "conforms fs d \<Longrightarrow> validate_model e fs d = Inr (model_dict e fs d)"
  by (induction fs) (simp_all add: conforms_def model_dict_def validate_field_conforms)

lemma validate_all_conforms:
  "list_all (conforms fs) ds \<Longrightarrow> validate_all e fs ds = Inr (map (model_dict e fs) ds)"
  by (induction ds) (simp_all add: validate_model_conforms)

lemma stored_slide_order:
  "stored_slide d \<Longrightarrow> \<exists>n. map_of d ''order'' = Some (VInt n)"
  by (cases "map_of d ''order''"; cases "the (map_of d ''order'')")
    (auto simp: stored_slide_def conforms_def SlideImage_def field_conforms_def accepts_def)

lemma model_dict_order:
  "map_of d ''order'' = Some v \<Longrightarrow> map_of (model_dict e SlideImage d) ''order'' = Some v"
  by (simp add: model_dict_def SlideImage_def dict_get_def)

lemma sorted_int_order:
  assumes "list_all stored_slide ss"
    and "sorted (map (\<lambda>d. bson_key (map_of d ''order'')) ss)"
  shows "sorted (map int_order ss)"
proof -
  have "sorted_wrt (\<lambda>x y. bson_key (map_of x ''order'') \<le> bson_key (map_of y ''order'')) ss"
    using assms(2) by (simp add: sorted_map)
  then have "sorted_wrt (\<lambda>x y. int_order x \<le> int_order y) ss"
  proof (rule sorted_wrt_mono_rel[rotated])
    fix x y
    assume "x \<in> set ss" "y \<in> set ss"
      and le: "bson_key (map_of x ''order'') \<le> bson_key (map_of y ''order'')"
    with assms(1) obtain a b where "map_of x ''order'' = Some (VInt a)"
      "map_of y ''order'' = Some (VInt b)"
      by (metis list_all_iff stored_slide_order)
    with le show "int_order x \<le> int_order y"
      by (auto simp: int_order_def less_eq_prod_def)
  qed
  then show ?thesis by (simp add: sorted_map)
qed

text \<open>
  Claim C7, as amended.  When every stored slide image conforms to the model and holds
  its order, which is then an integer, \<^verbatim>\<open>GET /slides\<close> returns the first 100 documents of the
  collection arranged in non-decreasing order of \<open>order\<close>: the result is sorted by \<open>order\<close>
  and has at most 100 elements, all of the collection when it holds no more than 100.
\<close>

theorem get_slides_sorted_capped:
  assumes "list_all stored_slide (slide_images s)"
  shows "\<exists>ss ns. mset ss = mset (slide_images s) \<and>
      map (\<lambda>d. map_of d ''order'') ss = map (\<lambda>n. Some (VInt n)) ns \<and> sorted ns \<and>
      get_slides e s = (Inr (map (model_dict e SlideImage) (take 100 ss)), s) \<and>
      map (\<lambda>r. map_of r ''order'') (map (model_dict e SlideImage) (take 100 ss)) =
        map (\<lambda>n. Some (VInt n)) (take 100 ns) \<and>
      length (map (model_dict e SlideImage) (take 100 ss)) = min 100 (length (slide_images s))"
proof -
  let ?ss = "sort_key (\<lambda>d. bson_key (map_of d ''order'')) (slide_images s)"
  let ?ns = "map int_order ?ss"
  have all: "list_all stored_slide ?ss"
    using assms by (simp add: list_all_iff)
  have ord: "map_of d ''order'' = Some (VInt (int_order d))" if "stored_slide d" for d
    using stored_slide_order[OF that] by (auto simp: int_order_def)
  have 1: "mset ?ss = mset (slide_images s)" by simp
  have 2: "map (\<lambda>d. map_of d ''order'') ?ss = map (\<lambda>n. Some (VInt n)) ?ns"
    using all ord by (simp add: list_all_iff)
  have 3: "sorted ?ns"
    by (rule sorted_int_order[OF all]) simp
  have "list_all (conforms SlideImage) (take 100 ?ss)"
    using all by (auto simp: list_all_iff stored_slide_def dest: in_set_takeD)
  then have 4: "get_slides e s = (Inr (map (model_dict e SlideImage) (take 100 ?ss)), s)"
    by (simp add: get_slides_def find_sorted_def validate_all_conforms)
  have "map_of (model_dict e SlideImage d) ''order'' = Some (VInt (int_order d))"
    if "d \<in> set (take 100 ?ss)" for d
    using that all ord[of d] by (auto simp: list_all_iff model_dict_order dest: in_set_takeD)
  then have 5: "map (\<lambda>r. map_of r ''order'') (map (model_dict e SlideImage) (take 100 ?ss)) =
        map (\<lambda>n. Some (VInt n)) (take 100 ?ns)"
    by (simp add: take_map)
  have 6: "length (map (model_dict e SlideImage) (take 100 ?ss)) = min 100 (length (slide_images s))"
    by (simp add: min.commute)
  from 1 2 3 4 5 6 show ?thesis by blast
qed

theorem get_slides_witness:
  "list_all stored_slide (slide_images slides_db) \<and>
   get_slides env0 slides_db = (Inr [slide ''b'' 1, slide ''a'' 2, slide ''c'' 3], slides_db)"
proof -
  have h: "list_all stored_slide (slide_images slides_db)"
    by (simp add: slides_db_def slide_def stored_slide_def conforms_def SlideImage_def
        field_conforms_def accepts_def)
  from get_slides_sorted_capped[OF h, of env0] obtain ss where
    "get_slides env0 slides_db = (Inr (map (model_dict env0 SlideImage) (take 100 ss)), slides_db)"
    by blast
  moreover have "get_slides env0 slides_db =
      (Inr [slide ''b'' 1, slide ''a'' 2, slide ''c'' 3], slides_db)"
    by (simp add: get_slides_def find_sorted_def slides_db_def slide_def SlideImage_def
        validate_field_def accepts_def less_eq_prod_def less_prod_def)
  ultimately show ?thesis using h by simp
qed

text \<open>
  Claim C7, as stated, fails: \<^verbatim>\<open>PUT /slides/reorder\<close> stores whatever order it is given.
  After it has stored \<^verbatim>\<open>null\<close> for a slide, \<^verbatim>\<open>GET /slides\<close> raises a validation error; after it
  has stored the string \<^verbatim>\<open>"0"\<close>, and with a pydantic that converts such a string, the
  response shows the orders 1, 3, 0.
\<close>

theorem reorder_breaks_slide_listing:
  "fst (reorder_slides [[(''id'', VStr ''a''), (''order'', VNone)]] slides_db) =
     Inr ''Slides reordered successfully'' \<and>
   fst (get_slides env0
         (snd (reorder_slides [[(''id'', VStr ''a''), (''order'', VNone)]] slides_db))) =
     Inl (ValidationError ''order'') \<and>
   fst (reorder_slides [[(''id'', VStr ''a''), (''order'', VStr ''0'')]] slides_db) =
     Inr ''Slides reordered successfully'' \<and>
   fst (get_slides env_lax
         (snd (reorder_slides [[(''id'', VStr ''a''), (''order'', VStr ''0'')]] slides_db))) =
     Inr [slide ''b'' 1, slide ''c'' 3, slide ''a'' 0]"
proof -
  have r1: "reorder_slides [[(''id'', VStr ''a''), (''order'', VNone)]] slides_db =
      (Inr ''Slides reordered successfully'',
       slides_db\<lparr>slide_images :=
         [[(''id'', VStr ''a''), (''image_base64'', VStr ''img''), (''order'', VNone),
           (''created_at'', VTime 0)], slide ''b'' 1, slide ''c'' 3]\<rparr>)"
    by (simp add: reorder_slides_def update_one_def encode_def encodable_def to_bson_doc_def
        update_docs_def slides_db_def slide_def)
  have r2: "reorder_slides [[(''id'', VStr ''a''), (''order'', VStr ''0'')]] slides_db =
      (Inr ''Slides reordered successfully'',
       slides_db\<lparr>slide_images :=
         [[(''id'', VStr ''a''), (''image_base64'', VStr ''img''), (''order'', VStr ''0''),
           (''created_at'', VTime 0)], slide ''b'' 1, slide ''c'' 3]\<rparr>)"
    by (simp add: reorder_slides_def update_one_def encode_def encodable_def to_bson_doc_def
        update_docs_def slides_db_def slide_def)
  have g1: "fst (get_slides env0 (slides_db\<lparr>slide_images :=
         [[(''id'', VStr ''a''), (''image_base64'', VStr ''img''), (''order'', VNone),
           (''created_at'', VTime 0)], slide ''b'' 1, slide ''c'' 3]\<rparr>)) =
      Inl (ValidationError ''order'')"
    by (simp add: get_slides_def find_sorted_def slides_db_def slide_def SlideImage_def
        validate_field_def accepts_def less_eq_prod_def less_prod_def)
  have g2: "fst (get_slides env_lax (slides_db\<lparr>slide_images :=
         [[(''id'', VStr ''a''), (''image_base64'', VStr ''img''), (''order'', VStr ''0''),
           (''created_at'', VTime 0)], slide ''b'' 1, slide ''c'' 3]\<rparr>)) =
      Inr [slide ''b'' 1, slide ''c'' 3, slide ''a'' 0]"
    by (simp add: get_slides_def find_sorted_def slides_db_def slide_def SlideImage_def
        validate_field_def convert_field_def accepts_def env_lax_def less_eq_prod_def
        less_prod_def)
  from r1 r2 g1 g2 show ?thesis by simp
qed

section \<open>Partial updates\<close>

lemma map_of_rev_distinct:
  assumes "distinct (map fst xs)"
  shows "map_of (rev xs) = map_of xs"
proof
  fix k
  have d: "distinct (map fst (rev xs))" using assms by (metis distinct_rev rev_map)
  show "map_of (rev xs) k = map_of xs k"
  proof (cases "map_of xs k")
    case None
    then have "map_of (rev xs) k = None" by (simp add: map_of_eq_None_iff)
    with None show ?thesis by simp
  next
    case (Some v)
    then have "(k, v) \<in> set (rev xs)" by (auto dest: map_of_SomeD)
    with d Some show ?thesis by simp
  qed
qed

lemma update_docs_absent:
  "find_one flt coll = None \<Longrightarrow> update_docs flt sets True coll = coll @ [apply_set sets flt]"
  by (simp add: update_docs_def find_one_def list_ex_find)

lemma modify_first_split:
  "List.find p coll = Some d \<Longrightarrow>
   \<exists>xs ys. coll = xs @ d # ys \<and> List.find p xs = None \<and> modify_first p f coll = xs @ f d # ys"
proof (induction coll)
  case Nil
  then show ?case by simp
next
  case (Cons c coll)
  show ?case
  proof (cases "p c")
    case True
    with Cons.prems have "c = d" by simp
    with True show ?thesis by (intro exI[of _ "[]"] exI[of _ coll]) simp
  next
    case False
    with Cons obtain xs ys where "coll = xs @ d # ys" "List.find p xs = None"
      "modify_first p f coll = xs @ f d # ys" by auto
    with False show ?thesis by (intro exI[of _ "c # xs"] exI[of _ ys]) simp
  qed
qed

lemma update_docs_present:
  assumes "find_one flt coll = Some d"
  shows "\<exists>xs ys. coll = xs @ d # ys \<and> find_one flt xs = None \<and>
     update_docs flt sets upsert coll = xs @ apply_set sets d # ys"
  using modify_first_split[OF assms[unfolded find_one_def], of "apply_set sets"] assms
  by (simp add: update_docs_def find_one_def list_ex_find)

lemma put_eq:
  "put r body e s =
     (case put_singleton e (model r) (fixed_id r) (update_data r body e) (collection r s) of
        (x, coll) \<Rightarrow> (x, with_collection r coll s))"
  by (cases r)
    (simp_all add: update_data_def update_config_def update_slide_settings_def update_number_def
      update_bluetooth_settings_def update_voice_settings_def)

lemma is_model_keys: "is_model us body \<Longrightarrow> map fst body = map fname us"
  by (simp add: is_model_def)

lemma update_model_distinct: "distinct (map fname (update_model r))"
  by (cases r)
    (simp_all add: AppConfigUpdate_def SlideSettingsUpdate_def NumberUpdate_def
      BluetoothRemoteUpdate_def VoiceSettingsUpdate_def)

lemma update_model_no_id: "''id'' \<notin> set (map fname (update_model r))"
  by (cases r)
    (simp_all add: AppConfigUpdate_def SlideSettingsUpdate_def NumberUpdate_def
      BluetoothRemoteUpdate_def VoiceSettingsUpdate_def)

lemma update_model_no_stamp:
  "''updated_at'' \<notin> set (map fname (update_model r))"
  by (cases r)
    (simp_all add: AppConfigUpdate_def SlideSettingsUpdate_def NumberUpdate_def
      BluetoothRemoteUpdate_def VoiceSettingsUpdate_def)

lemma not_none_keys: "set (map fst (not_none body)) \<subseteq> set (map fst body)"
  by (auto simp: not_none_def)

lemma not_none_distinct: "distinct (map fst body) \<Longrightarrow> distinct (map fst (not_none body))"
  by (simp add: not_none_def distinct_map_filter)

lemma supplied_None:
  "k \<notin> set (map fst body) \<Longrightarrow> supplied body k = None"
  using not_none_keys[of body] by (auto simp: supplied_def map_of_eq_None_iff)

lemma is_model_Number:
  "is_model NumberUpdate body \<Longrightarrow> \<exists>n. body = [(''number'', VInt n)]"
  by (cases body; cases "snd (hd body)")
    (auto simp: is_model_def NumberUpdate_def accepts_def)

lemma map_of_update_data:
  assumes "is_model (update_model r) body"
  shows "map_of (rev (update_data r body e)) k =
     (if stamped r \<and> k = ''updated_at'' then Some (VTime (utcnow e)) else supplied body k)"
proof -
  have keys: "map fst body = map fname (update_model r)"
    using assms by (rule is_model_keys)
  have dist: "distinct (map fst (not_none body))"
    using update_model_distinct[of r] keys by (simp add: not_none_distinct)
  have nostamp: "supplied body ''updated_at'' = None"
    using update_model_no_stamp[of r] keys by (simp add: supplied_None)
  show ?thesis
  proof (cases r)
    case Config
    have "distinct (map fst (AList.update ''updated_at'' (VTime (utcnow e)) (not_none body)))"
      using dist by (simp add: distinct_update)
    then show ?thesis using Config nostamp
      by (simp add: update_data_def map_of_rev_distinct update_conv' supplied_def)
  next
    case Number
    with assms obtain n where "body = [(''number'', VInt n)]"
      using is_model_Number by auto
    with Number show ?thesis
      by (simp add: update_data_def supplied_def not_none_def attr_def)
  next
    case Settings
    then show ?thesis using dist by (simp add: update_data_def map_of_rev_distinct supplied_def)
  next
    case Bluetooth
    then show ?thesis using dist by (simp add: update_data_def map_of_rev_distinct supplied_def)
  next
    case Voice
    then show ?thesis using dist by (simp add: update_data_def map_of_rev_distinct supplied_def)
  qed
qed

lemma update_data_no_id:
  assumes "is_model (update_model r) body"
  shows "map_of (update_data r body e) ''id'' = None"
proof -
  have "map_of (rev (update_data r body e)) ''id'' = None"
    using update_model_no_id[of r] is_model_keys[OF assms]
    by (simp add: map_of_update_data[OF assms] supplied_None)
  then show ?thesis by (simp add: map_of_eq_None_iff)
qed

text \<open>What the store receives: the update data encoded.\<close>

lemma rev_to_bson_doc: "rev (to_bson_doc d) = to_bson_doc (rev d)"
  by (simp add: to_bson_doc_def rev_map)

lemma update_model_no_datetime: "u \<in> set (update_model r) \<Longrightarrow> ftype u \<noteq> TDatetime"
  by (cases r)
    (auto simp: AppConfigUpdate_def SlideSettingsUpdate_def NumberUpdate_def
      BluetoothRemoteUpdate_def VoiceSettingsUpdate_def)

lemma accepts_to_bson: "accepts u v \<Longrightarrow> ftype u \<noteq> TDatetime \<Longrightarrow> to_bson v = v"
  by (cases v; cases "ftype u") (simp_all add: accepts_def)

lemma is_model_mem:
  assumes "is_model us body" and "(k, v) \<in> set body"
  shows "\<exists>u \<in> set us. fname u = k \<and> accepts u v"
proof -
  from assms(2) obtain i where i: "i < length body" "body ! i = (k, v)"
    by (auto simp: in_set_conv_nth)
  from assms(1) have keys: "map fst body = map fname us"
    and acc: "list_all2 accepts us (map snd body)"
    by (simp_all add: is_model_def)
  from keys have len: "length us = length body" by (metis length_map)
  from keys i len have "fname (us ! i) = k" by (metis fst_conv nth_map)
  moreover from acc i len have "accepts (us ! i) v"
    by (auto simp: list_all2_conv_all_nth)
  ultimately show ?thesis using i len by (metis nth_mem)
qed

lemma supplied_SomeD:
  "supplied body k = Some v \<Longrightarrow> (k, v) \<in> set body \<and> v \<noteq> VNone"
  by (auto simp: supplied_def not_none_def dest!: map_of_SomeD)

lemma body_to_bson:
  assumes "is_model (update_model r) body" and "(k, v) \<in> set body"
  shows "to_bson v = v"
proof -
  from is_model_mem[OF assms] obtain u where "u \<in> set (update_model r)" "accepts u v"
    by blast
  then show ?thesis by (auto intro: accepts_to_bson dest: update_model_no_datetime)
qed

lemma supplied_to_bson:
  assumes "is_model (update_model r) body"
  shows "map_option to_bson (supplied body k) = supplied body k"
proof (cases "supplied body k")
  case None
  then show ?thesis by simp
next
  case (Some v)
  with supplied_SomeD[OF Some] body_to_bson[OF assms] show ?thesis by auto
qed

lemma map_of_stored_data:
  assumes "is_model (update_model r) body"
  shows "map_of (rev (to_bson_doc (update_data r body e))) k =
     (if stamped r \<and> k = ''updated_at'' then Some (VTime (millis (utcnow e)))
      else supplied body k)"
  by (simp add: rev_to_bson_doc map_of_to_bson_doc map_of_update_data[OF assms]
      supplied_to_bson[OF assms])

lemma update_fresh: "k \<notin> fst ` set d \<Longrightarrow> AList.update k v d = d @ [(k, v)]"
  by (induction d) auto

lemma encodable_not_none [simp]: "encodable (not_none body) = encodable body"
  by (induction body) (auto simp: encodable_def not_none_def)

lemma encodable_update_data:
  assumes "is_model (update_model r) body"
  shows "encodable (update_data r body e) = encodable body"
proof (cases r)
  case Config
  have "''updated_at'' \<notin> fst ` set (not_none body)"
    using update_model_no_stamp[of r] is_model_keys[OF assms] not_none_keys[of body] by auto
  from update_fresh[OF this] Config show ?thesis
    using encodable_not_none[of body] by (simp add: update_data_def encodable_def)
next
  case Number
  with assms obtain n where "body = [(''number'', VInt n)]"
    using is_model_Number by auto
  with Number show ?thesis by (simp add: update_data_def attr_def encodable_def)
next
  case Settings
  then show ?thesis by (simp add: update_data_def)
next
  case Bluetooth
  then show ?thesis by (simp add: update_data_def)
next
  case Voice
  then show ?thesis by (simp add: update_data_def)
qed

lemma with_collection_same [simp]: "with_collection r (collection r s) s = s"
  by (cases r) simp_all


lemma put_state:
  assumes "is_model (update_model r) body" and "encodable body"
  shows "snd (put r body e s) =
     with_collection r
       (update_docs [(''id'', VStr (fixed_id r))] (to_bson_doc (update_data r body e)) True
          (collection r s)) s"
    and "fst (put r body e s) =
     validate_model e (model r)
       (apply_set (to_bson_doc (update_data r body e)) (target (fixed_id r) (collection r s)))"
  using assms
  by (simp_all add: put_eq put_singleton_eq update_data_no_id encodable_update_data)

text \<open>
  Claim C5, as amended.  A \<^verbatim>\<open>PUT\<close> on a singleton whose document exists, with a body whose
  integers fit in 8 bytes, rewrites that one document and nothing else in the store.  In
  it, every field the body supplies with a value other than \<^verbatim>\<open>None\<close> takes that value,
  \<^verbatim>\<open>updated_at\<close> is set to the clock, in milliseconds, for the two models that declare it
  (\<^verbatim>\<open>PUT /config\<close> and \<^verbatim>\<open>PUT /number\<close>), and every other field keeps its prior value or stays
  absent; none is reset to its default.
\<close>

theorem put_changes_supplied_fields_only:
  assumes "is_model (update_model r) body" and "encodable body"
    and "find_one [(''id'', VStr (fixed_id r))] (collection r s) = Some d"
  shows "\<exists>xs ys d'. collection r s = xs @ d # ys \<and>
      find_one [(''id'', VStr (fixed_id r))] xs = None \<and>
      snd (put r body e s) = with_collection r (xs @ d' # ys) s \<and>
      (\<forall>k. map_of d' k =
         (if stamped r \<and> k = ''updated_at'' then Some (VTime (millis (utcnow e)))
          else case supplied body k of Some v \<Rightarrow> Some v | None \<Rightarrow> map_of d k))"
proof -
  let ?sets = "to_bson_doc (update_data r body e)"
  from update_docs_present[OF assms(3), of ?sets True] obtain xs ys where
    x: "collection r s = xs @ d # ys" "find_one [(''id'', VStr (fixed_id r))] xs = None"
      "update_docs [(''id'', VStr (fixed_id r))] ?sets True (collection r s) =
        xs @ apply_set ?sets d # ys" by blast
  have m: "\<forall>k. map_of (apply_set ?sets d) k =
         (if stamped r \<and> k = ''updated_at'' then Some (VTime (millis (utcnow e)))
          else case supplied body k of Some v \<Rightarrow> Some v | None \<Rightarrow> map_of d k)"
    by (simp add: map_of_apply_set map_add_def map_of_stored_data[OF assms(1)]
        split: option.splits)
  have "snd (put r body e s) = with_collection r (xs @ apply_set ?sets d # ys) s"
    using x(3) put_state(1)[OF assms(1,2), of e s] by simp
  with x(1,2) m show ?thesis by blast
qed

lemma compatible_update_model: "compatible (update_model r) (model r)"
  by (cases r)
    (simp_all add: compatible_def AppConfigUpdate_def SlideSettingsUpdate_def NumberUpdate_def
      BluetoothRemoteUpdate_def VoiceSettingsUpdate_def AppConfig_def SlideSettings_def
      CurrentNumber_def BluetoothRemote_def VoiceSettings_def)

lemma supplied_accepts:
  assumes "is_model (update_model r) body" and "f \<in> set (model r)"
    and "supplied body (fname f) = Some v"
  shows "accepts f v"
proof -
  from supplied_SomeD[OF assms(3)] have mem: "(fname f, v) \<in> set body" and nn: "v \<noteq> VNone"
    by simp_all
  from is_model_mem[OF assms(1) mem] obtain u where
    u: "u \<in> set (update_model r)" "fname u = fname f" "accepts u v" by blast
  from compatible_update_model[of r] u(1,2) assms(2) have "ftype f = ftype u"
    by (auto simp: compatible_def)
  with u(3) nn show ?thesis by (auto simp: accepts_def)
qed

lemma stamp_accepts:
  "stamped r \<Longrightarrow> f \<in> set (model r) \<Longrightarrow> fname f = ''updated_at'' \<Longrightarrow> accepts f (VTime t)"
  by (cases r) (auto simp: AppConfig_def CurrentNumber_def accepts_def)

lemma conforms_iff: "conforms fs d = (\<forall>f \<in> set fs. field_conforms d f)"
  by (simp add: conforms_def list_all_iff)

lemma conforms_update_data:
  assumes "is_model (update_model r) body" and "conforms (model r) d"
  shows "conforms (model r) (apply_set (to_bson_doc (update_data r body e)) d)"
  unfolding conforms_iff
proof
  fix f assume f: "f \<in> set (model r)"
  let ?d' = "apply_set (to_bson_doc (update_data r body e)) d"
  define c where "c = (stamped r \<and> fname f = ''updated_at'')"
  have m: "map_of ?d' (fname f) =
         (if c then Some (VTime (millis (utcnow e)))
          else case supplied body (fname f) of Some v \<Rightarrow> Some v | None \<Rightarrow> map_of d (fname f))"
    unfolding c_def
    by (simp add: map_of_apply_set map_add_def map_of_stored_data[OF assms(1)]
        split: option.splits)
  from assms(2) f have old: "field_conforms d f" by (simp add: conforms_iff)
  show "field_conforms ?d' f"
  proof (cases c)
    case True
    then have "accepts f (VTime (millis (utcnow e)))"
      using stamp_accepts[OF _ f, of "millis (utcnow e)"] by (simp add: c_def)
    with True m show ?thesis
      by (simp add: field_conforms_def)
  next
    case False
    show ?thesis
    proof (cases "supplied body (fname f)")
      case None
      with False m old show ?thesis by (simp add: field_conforms_def)
    next
      case (Some v)
      with False m supplied_accepts[OF assms(1) f Some] show ?thesis
        by (simp add: field_conforms_def)
    qed
  qed
qed




lemma conforms_filter_doc: "conforms (model r) [(''id'', VStr (fixed_id r))]"
  by (cases r)
    (simp_all add: conforms_def field_conforms_def accepts_def AppConfig_def SlideSettings_def
      CurrentNumber_def BluetoothRemote_def VoiceSettings_def)





lemma is_model_city_body: "is_model AppConfigUpdate city_body"
  by (simp add: is_model_def AppConfigUpdate_def city_body_def accepts_def)

lemma encodable_city_body: "encodable city_body"
  by (simp add: encodable_def city_body_def)

lemma stored_config_db:
  "find_one [(''id'', VStr ''main_config'')] (app_config config_db) = Some (default_AppConfig 0 0)"
  by (simp add: config_db_def find_one_def default_AppConfig_def)

theorem put_changes_supplied_fields_only_witness:
  "is_model (update_model Config) city_body \<and> encodable city_body \<and>
   find_one [(''id'', VStr (fixed_id Config))] (collection Config config_db) =
     Some (default_AppConfig 0 0) \<and>
   (\<exists>xs ys d'. collection Config config_db = xs @ default_AppConfig 0 0 # ys \<and>
      find_one [(''id'', VStr (fixed_id Config))] xs = None \<and>
      snd (put Config city_body env0 config_db) = with_collection Config (xs @ d' # ys) config_db \<and>
      (\<forall>k. map_of d' k =
         (if stamped Config \<and> k = ''updated_at'' then Some (VTime (millis (utcnow env0)))
          else case supplied city_body k of Some v \<Rightarrow> Some v
               | None \<Rightarrow> map_of (default_AppConfig 0 0) k)))"
proof -
  have a: "is_model (update_model Config) city_body" by (simp add: is_model_city_body)
  have b: "encodable city_body" by (rule encodable_city_body)
  have c: "find_one [(''id'', VStr (fixed_id Config))] (collection Config config_db) =
     Some (default_AppConfig 0 0)" by (simp add: stored_config_db)
  from a b c put_changes_supplied_fields_only[OF a b c, of env0] show ?thesis by blast
qed

text \<open>
  Claim C5, as stated, fails: a \<^verbatim>\<open>PUT /config\<close> whose body supplies only \<open>city\<close> also changes
  the stored \<open>updated_at\<close>, here from 0 to the clock's 7654321 cut to milliseconds.  And a
  \<^verbatim>\<open>PUT /slides/settings\<close> whose body supplies an \<open>interval_seconds\<close> beyond 8 bytes raises
  \<^verbatim>\<open>OverflowError\<close> and changes nothing.
\<close>

theorem put_changes_more_or_nothing:
  "supplied city_body ''updated_at'' = None \<and>
   find_one [(''id'', VStr ''main_config'')] (app_config config_db) =
     Some [(''id'', VStr ''main_config''),
       (''restaurant_name'', VStr ''Number ONE''),
       (''city'', VStr ''ROMA''),
       (''logo_base64'', VNone),
       (''theme_primary_color'', VStr ''#FF0000''),
       (''theme_secondary_color'', VStr ''#2C3E50''),
       (''theme_text_color'', VStr ''#FFFFFF''),
       (''rss_feed_url'', VStr ''https://news.google.com/rss?hl=it&gl=IT&ceid=IT:it''),
       (''weather_api_key'', VNone),
       (''created_at'', VTime 0),
       (''updated_at'', VTime 0)] \<and>
   find_one [(''id'', VStr ''main_config'')]
       (app_config (snd (update_config city_body env0 config_db))) =
     Some [(''id'', VStr ''main_config''),
       (''restaurant_name'', VStr ''Number ONE''),
       (''city'', VStr ''MILANO''),
       (''logo_base64'', VNone),
       (''theme_primary_color'', VStr ''#FF0000''),
       (''theme_secondary_color'', VStr ''#2C3E50''),
       (''theme_text_color'', VStr ''#FFFFFF''),
       (''rss_feed_url'', VStr ''https://news.google.com/rss?hl=it&gl=IT&ceid=IT:it''),
       (''weather_api_key'', VNone),
       (''created_at'', VTime 0),
       (''updated_at'', VTime 7654000)] \<and>
   supplied interval_body ''interval_seconds'' = Some (VInt (2 ^ 63)) \<and>
   update_slide_settings interval_body env0 settings_db = (Inl OverflowError, settings_db) \<and>
   find_one [(''id'', VStr ''slide_settings'')] (slide_settings settings_db) =
     Some default_SlideSettings"
proof -
  have a: "supplied city_body ''updated_at'' = None"
    by (simp add: supplied_def not_none_def city_body_def)
  have b: "find_one [(''id'', VStr ''main_config'')] (app_config config_db) =
      Some (default_AppConfig 0 0)"
    by (rule stored_config_db)
  have c: "find_one [(''id'', VStr ''main_config'')]
       (app_config (snd (update_config city_body env0 config_db))) =
      Some ((default_AppConfig 0 0)[2 := (''city'', VStr ''MILANO''),
        10 := (''updated_at'', VTime 7654000)])"
    by (simp add: not_none_def city_body_def config_db_def empty_db_def
        default_AppConfig_def env0_def update_config_def put_singleton_def
        update_one_def encode_def encodable_def to_bson_doc_def millis_def update_docs_def
        find_one_def)
  have d: "supplied interval_body ''interval_seconds'' = Some (VInt (2 ^ 63))"
    by (simp add: supplied_def not_none_def interval_body_def)
  have e: "update_slide_settings interval_body env0 settings_db = (Inl OverflowError, settings_db)"
    by (simp add: update_slide_settings_def put_singleton_def update_one_def encode_def
        encodable_def not_none_def interval_body_def settings_db_def)
  have f: "find_one [(''id'', VStr ''slide_settings'')] (slide_settings settings_db) =
     Some default_SlideSettings"
    by (simp add: settings_db_def find_one_def default_SlideSettings_def)
  from a b c d e f show ?thesis by (simp add: default_AppConfig_def)
qed

section \<open>Updates that find no document\<close>

lemma apply_set_fresh:
  "distinct (map fst sets) \<Longrightarrow> fst ` set sets \<inter> fst ` set d = {} \<Longrightarrow>
   apply_set sets d = d @ sets"
proof (induction sets arbitrary: d)
  case Nil
  then show ?case by simp
next
  case (Cons kv sets)
  from Cons.prems have fresh: "fst kv \<notin> fst ` set d" by auto
  from Cons.prems have "fst ` set sets \<inter> fst ` set (d @ [kv]) = {}" by auto
  with Cons.IH[of "d @ [kv]"] Cons.prems(1) have "apply_set sets (d @ [kv]) = (d @ [kv]) @ sets"
    by simp
  with fresh show ?case by (simp add: update_fresh)
qed

lemma get_eq:
  "get r e s =
     (case get_singleton e (model r) (fixed_id r) (collection r s) of
        (x, coll) \<Rightarrow> (x, with_collection r coll s))"
  by (cases r)
    (simp_all add: get_config_def get_slide_settings_def get_current_number_def
      get_bluetooth_settings_def get_voice_settings_def)

lemma collection_with_collection [simp]:
  "collection r (with_collection r coll s) = coll"
  by (cases r) simp_all

lemma with_collection_twice [simp]:
  "with_collection r coll (with_collection r coll' s) = with_collection r coll s"
  by (cases r) simp_all

lemma to_bson_doc_body:
  assumes "is_model (update_model r) body"
  shows "to_bson_doc (not_none body) = not_none body"
proof -
  have "(fst kv, to_bson (snd kv)) = kv" if "kv \<in> set (not_none body)" for kv
  proof -
    from that have "(fst kv, snd kv) \<in> set body" by (simp add: not_none_def)
    from body_to_bson[OF assms this] show ?thesis by simp
  qed
  then show ?thesis by (simp add: to_bson_doc_def map_idI)
qed

lemma unstamped_update_data: "\<not> stamped r \<Longrightarrow> update_data r body e = not_none body"
  by (cases r) (simp_all add: update_data_def)

lemma unstamped_default:
  "\<not> stamped r \<Longrightarrow> f \<in> set (model r) \<Longrightarrow> \<exists>v. fdefault f = Default v"
  by (cases r) (auto simp: SlideSettings_def BluetoothRemote_def VoiceSettings_def)

lemma model_distinct: "distinct (map fname (model r))"
  by (cases r)
    (simp_all add: AppConfig_def SlideSettings_def CurrentNumber_def BluetoothRemote_def
      VoiceSettings_def)

lemma id_default:
  "f \<in> set (model r) \<Longrightarrow> fname f = ''id'' \<Longrightarrow> fdefault f = Default (VStr (fixed_id r))"
  by (cases r)
    (auto simp: AppConfig_def SlideSettings_def CurrentNumber_def BluetoothRemote_def
      VoiceSettings_def)

lemma map_of_model_dict:
  assumes "distinct (map fname fs)" and "f \<in> set fs"
  shows "map_of (model_dict e fs d) (fname f) = Some (dict_get d (fname f) (default_of e f))"
proof -
  have "map fst (model_dict e fs d) = map fname fs"
    by (simp add: model_dict_def comp_def)
  with assms(1) have "distinct (map fst (model_dict e fs d))" by simp
  moreover from assms(2)
  have "(fname f, dict_get d (fname f) (default_of e f)) \<in> set (model_dict e fs d)"
    by (auto simp: model_dict_def)
  ultimately show ?thesis by simp
qed

lemma model_dict_unstamped:
  assumes "\<not> stamped r"
  shows "model_dict e (model r) d = model_dict e' (model r) d"
proof -
  have "default_of e f = default_of e' f" if "f \<in> set (model r)" for f
    using unstamped_default[OF assms that] by (auto simp: default_of_def)
  then show ?thesis by (simp add: model_dict_def)
qed

text \<open>
  Claim C10.  For the three singletons without timestamps (slide settings, bluetooth
  remote, voice settings), a \<^verbatim>\<open>PUT\<close> that finds no document, with a body whose integers fit
  in 8 bytes, appends one that holds only the
  fixed id and the fields the body supplies; the response shows every field of the
  model, the supplied ones as given and every other one at its declared default, and a
  following \<^verbatim>\<open>GET\<close> returns the same response and leaves the store as it is.
\<close>

theorem put_without_document:
  assumes "\<not> stamped r" and "is_model (update_model r) body" and "encodable body"
    and "find_one [(''id'', VStr (fixed_id r))] (collection r s) = None"
  shows "snd (put r body e s) =
      with_collection r (collection r s @ [(''id'', VStr (fixed_id r)) # not_none body]) s \<and>
    fst (put r body e s) =
      Inr (model_dict e (model r) ((''id'', VStr (fixed_id r)) # not_none body)) \<and>
    get r e' (snd (put r body e s)) = (fst (put r body e s), snd (put r body e s)) \<and>
    (\<forall>f \<in> set (model r). \<exists>v. fdefault f = Default v \<and>
       map_of (model_dict e (model r) ((''id'', VStr (fixed_id r)) # not_none body)) (fname f) =
         Some (case supplied body (fname f) of Some w \<Rightarrow> w | None \<Rightarrow> v))"
proof -
  let ?doc = "(''id'', VStr (fixed_id r)) # not_none body"
  let ?flt = "[(''id'', VStr (fixed_id r))]"
  have keys: "map fst body = map fname (update_model r)"
    using assms(2) by (rule is_model_keys)
  have noid: "''id'' \<notin> fst ` set (not_none body)"
    using update_model_no_id[of r] keys not_none_keys[of body] by auto
  have dist: "distinct (map fst (not_none body))"
    using update_model_distinct[of r] keys by (simp add: not_none_distinct)
  have sets: "to_bson_doc (update_data r body e) = not_none body"
    by (simp add: unstamped_update_data[OF assms(1)] to_bson_doc_body[OF assms(2)])
  have doc: "apply_set (to_bson_doc (update_data r body e)) ?flt = ?doc"
    using apply_set_fresh[OF dist, of ?flt] noid by (simp add: sets)
  have tgt: "target (fixed_id r) (collection r s) = ?flt"
    using assms(4) by (simp add: target_def)
  have conf: "conforms (model r) ?doc"
    using conforms_update_data[OF assms(2) conforms_filter_doc, of e] doc by simp
  have 1: "snd (put r body e s) = with_collection r (collection r s @ [?doc]) s"
    using put_state(1)[OF assms(2,3), of e s]
      update_docs_absent[OF assms(4), of "to_bson_doc (update_data r body e)"] doc
    by simp
  have 2: "fst (put r body e s) = Inr (model_dict e (model r) ?doc)"
    using put_state(2)[OF assms(2,3), of e s] tgt doc conf by (simp add: validate_model_conforms)
  have found: "find_one ?flt (collection r s @ [?doc]) = Some ?doc"
    using assms(4) by (simp add: find_one_def find_append_none)
  have 3: "get r e' (snd (put r body e s)) = (fst (put r body e s), snd (put r body e s))"
    using found conf model_dict_unstamped[OF assms(1), of e' ?doc e]
    by (simp add: 1 2 get_eq get_singleton_def validate_model_conforms)
  have 4: "\<exists>v. fdefault f = Default v \<and>
       map_of (model_dict e (model r) ?doc) (fname f) =
         Some (case supplied body (fname f) of Some w \<Rightarrow> w | None \<Rightarrow> v)"
    if f: "f \<in> set (model r)" for f
  proof -
    from unstamped_default[OF assms(1) f] obtain v where v: "fdefault f = Default v" by blast
    have look: "map_of (model_dict e (model r) ?doc) (fname f) =
        Some (dict_get ?doc (fname f) v)"
      using map_of_model_dict[OF model_distinct f, of e ?doc] v by (simp add: default_of_def)
    show ?thesis
    proof (cases "fname f = ''id''")
      case True
      with id_default[OF f] v have "v = VStr (fixed_id r)" by simp
      moreover from True noid have "supplied body (fname f) = None"
        by (simp add: supplied_def map_of_eq_None_iff)
      ultimately show ?thesis using v look True by (simp add: dict_get_def)
    next
      case False
      with v look show ?thesis by (simp add: dict_get_def supplied_def)
    qed
  qed
  from 1 2 3 4 show ?thesis by blast
qed

lemma is_model_pitch_body: "is_model VoiceSettingsUpdate pitch_body"
  by (simp add: is_model_def VoiceSettingsUpdate_def pitch_body_def accepts_def)

theorem put_without_document_witness:
  "\<not> stamped Voice \<and> is_model (update_model Voice) pitch_body \<and> encodable pitch_body \<and>
   find_one [(''id'', VStr (fixed_id Voice))] (collection Voice empty_db) = None \<and>
   snd (put Voice pitch_body env0 empty_db) =
     empty_db\<lparr>voice_settings := [[(''id'', VStr ''voice_settings''), (''pitch'', VFloat 2)]]\<rparr> \<and>
   fst (put Voice pitch_body env0 empty_db) =
     Inr [(''id'', VStr ''voice_settings''), (''enabled'', VBool True),
       (''voice_type'', VStr ''female''), (''pitch'', VFloat 2), (''rate'', VFloat 1),
       (''phrase_template'', VStr ''Numero {number}''), (''language'', VStr ''it-IT'')] \<and>
   get Voice env_past (snd (put Voice pitch_body env0 empty_db)) =
     (fst (put Voice pitch_body env0 empty_db), snd (put Voice pitch_body env0 empty_db))"
proof -
  have a: "\<not> stamped Voice" by simp
  have b: "is_model (update_model Voice) pitch_body" by (simp add: is_model_pitch_body)
  have c: "find_one [(''id'', VStr (fixed_id Voice))] (collection Voice empty_db) = None"
    by (simp add: empty_db_def find_one_def)
  have enc: "encodable pitch_body" by (simp add: encodable_def pitch_body_def)
  have n: "not_none pitch_body = [(''pitch'', VFloat 2)]"
    by (simp add: not_none_def pitch_body_def)
  have m: "model_dict env0 VoiceSettings [(''id'', VStr ''voice_settings''), (''pitch'', VFloat 2)] =
     [(''id'', VStr ''voice_settings''), (''enabled'', VBool True),
       (''voice_type'', VStr ''female''), (''pitch'', VFloat 2), (''rate'', VFloat 1),
       (''phrase_template'', VStr ''Numero {number}''), (''language'', VStr ''it-IT'')]"
    by (simp add: model_dict_def VoiceSettings_def dict_get_def default_of_def)
  note t = put_without_document[OF a b enc c, of env0 env_past]
  from t have 1: "snd (put Voice pitch_body env0 empty_db) =
     empty_db\<lparr>voice_settings := [[(''id'', VStr ''voice_settings''), (''pitch'', VFloat 2)]]\<rparr>"
    by (simp add: n empty_db_def)
  from t have 2: "fst (put Voice pitch_body env0 empty_db) =
     Inr [(''id'', VStr ''voice_settings''), (''enabled'', VBool True),
       (''voice_type'', VStr ''female''), (''pitch'', VFloat 2), (''rate'', VFloat 1),
       (''phrase_template'', VStr ''Numero {number}''), (''language'', VStr ''it-IT'')]"
    using m by (simp add: n)
  from t have 3: "get Voice env_past (snd (put Voice pitch_body env0 empty_db)) =
     (fst (put Voice pitch_body env0 empty_db), snd (put Voice pitch_body env0 empty_db))"
    by blast
  from a b enc c 1 2 3 show ?thesis by blast
qed

section \<open>Which requests raise\<close>

lemma store_ok_collection: "store_ok s \<Longrightarrow> list_all (fits (model r)) (collection r s)"
  by (cases r) (simp_all add: store_ok_def)

lemma store_ok_with_collection:
  "store_ok s \<Longrightarrow> list_all (fits (model r)) coll \<Longrightarrow> store_ok (with_collection r coll s)"
  by (cases r) (simp_all add: store_ok_def)

lemma store_ok_slide_images [simp]: "store_ok (s\<lparr>slide_images := coll\<rparr>) = store_ok s"
  by (simp add: store_ok_def)



text \<open>
  The empty store is \<open>store_ok\<close>, and the \<^verbatim>\<open>GET\<close> handlers of the singletons keep it so and
  always return a model.
\<close>

lemma conforms_no_kwargs: "conforms (model r) []"
  by (cases r)
    (simp_all add: conforms_def field_conforms_def AppConfig_def SlideSettings_def
      CurrentNumber_def BluetoothRemote_def VoiceSettings_def)

lemma encodable_default: "encodable (model_dict e (model r) [])"
  by (cases r)
    (simp_all add: encodable_def model_dict_def dict_get_def default_of_def AppConfig_def
      SlideSettings_def CurrentNumber_def BluetoothRemote_def VoiceSettings_def)

lemma fits_default: "fits (model r) (to_bson_doc (model_dict e (model r) []))"
  by (cases r)
    (simp_all add: fits_def conforms_def field_conforms_def accepts_def encodable_def
      to_bson_doc_def model_dict_def dict_get_def default_of_def AppConfig_def
      SlideSettings_def CurrentNumber_def BluetoothRemote_def VoiceSettings_def)

lemma get_ok:
  assumes "store_ok s"
  shows "\<exists>x. fst (get r e s) = Inr x" and "store_ok (snd (get r e s))"
proof -
  note c = store_ok_collection[OF assms, of r]
  have "(\<exists>x. fst (get r e s) = Inr x) \<and> store_ok (snd (get r e s))"
  proof (cases "find_one [(''id'', VStr (fixed_id r))] (collection r s)")
    case None
    have i: "insert_one (model_dict e (model r) []) (collection r s) =
        Inr (collection r s @ [to_bson_doc (model_dict e (model r) [])])"
      by (simp add: insert_one_def encode_def encodable_default)
    have "list_all (fits (model r)) (collection r s @ [to_bson_doc (model_dict e (model r) [])])"
      using c by (simp add: fits_default)
    with None i store_ok_with_collection[OF assms, of r] show ?thesis
      by (simp add: get_eq get_singleton_def validate_model_conforms conforms_no_kwargs)
  next
    case (Some d)
    then have "d \<in> set (collection r s)" by (auto simp: find_one_def find_Some_iff)
    with c have "conforms (model r) d" by (simp add: list_all_iff fits_def)
    with Some assms show ?thesis
      by (simp add: get_eq get_singleton_def validate_model_conforms)
  qed
  then show "\<exists>x. fst (get r e s) = Inr x" and "store_ok (snd (get r e s))" by simp_all
qed


lemma respond_snd [simp]: "snd (respond wrap r) = snd r"
  by (cases r; cases "fst r") (auto simp: respond_def)



















end
